theory Spec2Isabelle
  imports Main
begin

section \<open>Data model (internal/model)\<close>

text \<open>
  Go structs are records. Several structs of the repository share field names
  (\<open>Name\<close>, \<open>Type\<close>, \<open>TargetName\<close>, \<open>Environment\<close>), so every field carries a short
  prefix naming its struct: \<open>t_\<close> Target, \<open>sv_\<close> SecretValue, \<open>sd_\<close> SecretDiff,
  \<open>td_\<close> TargetDiff, \<open>so_\<close> SyncOptions, \<open>pe_\<close> ProgressEvent, \<open>sr_\<close> SyncResult,
  \<open>pi_\<close> ProviderInfo, \<open>cr_\<close> Credentials.
\<close>

text \<open>A value of Go's \<open>any\<close> in a target's inline configuration. The engine only ever
  asks whether such a value is a string.\<close>

datatype any = AnyString string | AnyInt int | AnyBool bool

record SecretsFilter =
  Include :: "string list"
  Exclude :: "string list"

text \<open>
  \<open>Mapping\<close> is a Go \<open>map[string]string\<close> that the code both looks up and ranges over.
  Go leaves the iteration order of a map unspecified, so the table is an association list
  with distinct keys: the order of the list is the order in which one particular
  \<open>range\<close> visits the entries, and a lookup is \<open>map_of\<close>. A nil map and an empty map
  are both \<open>[]\<close> (Go reads them alike). \<open>Config\<close> is only looked up and copied, so it is a
  partial function.
\<close>

record Target =
  t_Name :: string
  t_Type :: string
  Mapping :: "(string \<times> string) list"
  Secrets :: SecretsFilter
  Config :: "string \<rightharpoonup> any"

record SecretValue =
  sv_Name :: string
  sv_Value :: string
  sv_Environment :: string

datatype DiffType = DiffAdd | DiffRemove | DiffChange | DiffUnchanged | DiffUnknown

text \<open>The string behind each \<open>DiffType\<close> constant (\<open>string(d.Type)\<close> in the engine).\<close>

fun DiffType_string :: "DiffType \<Rightarrow> string" where
  "DiffType_string DiffAdd = ''add''"
| "DiffType_string DiffRemove = ''remove''"
| "DiffType_string DiffChange = ''change''"
| "DiffType_string DiffUnchanged = ''unchanged''"
| "DiffType_string DiffUnknown = ''unknown''"

record SecretDiff =
  sd_Name :: string
  sd_Type :: DiffType
  OldValue :: string
  NewValue :: string
  sd_Environment :: string
  Sensitive :: bool

record TargetDiff =
  td_TargetName :: string
  TargetType :: string
  Project :: string
  Diffs :: "SecretDiff list"

text \<open>\<open>Target.GetProject\<close>: the first of six configuration keys that holds a string
  (an empty string counts: the type assertion succeeds on it).\<close>

definition config_string :: "(string \<rightharpoonup> any) \<Rightarrow> string \<Rightarrow> string option" where
  "config_string cfg k = (case cfg k of Some (AnyString v) \<Rightarrow> Some v | _ \<Rightarrow> None)"

definition GetProject :: "Target \<Rightarrow> string" where
  "GetProject t =
     (case config_string (Config t) ''project'' of Some p \<Rightarrow> p | None \<Rightarrow>
      (case config_string (Config t) ''deployment'' of Some d \<Rightarrow> d | None \<Rightarrow>
      (case config_string (Config t) ''service_id'' of Some s \<Rightarrow> s | None \<Rightarrow>
      (case config_string (Config t) ''project_ref'' of Some r \<Rightarrow> r | None \<Rightarrow>
      (case config_string (Config t) ''app_name'' of Some a \<Rightarrow> a | None \<Rightarrow>
      (case config_string (Config t) ''account_id'' of Some a \<Rightarrow> a | None \<Rightarrow> ''''))))))"

subsection \<open>Environment mapper (\<open>Target.MapToRemote\<close>, \<open>Target.MapToLocal\<close>)\<close>

text \<open>\<open>for remote, local := range t.Mapping { if local == localEnv { remotes = append(remotes, remote) } }\<close>\<close>

fun MapToRemote_range :: "(string \<times> string) list \<Rightarrow> string \<Rightarrow> string list \<Rightarrow> string list" where
  "MapToRemote_range [] localEnv remotes = remotes"
| "MapToRemote_range ((remote, local) # rest) localEnv remotes =
     (if local = localEnv then MapToRemote_range rest localEnv (remotes @ [remote])
      else MapToRemote_range rest localEnv remotes)"

definition MapToRemote :: "Target \<Rightarrow> string \<Rightarrow> string list" where
  "MapToRemote t localEnv = MapToRemote_range (Mapping t) localEnv []"

definition MapToLocal :: "Target \<Rightarrow> string \<Rightarrow> string" where
  "MapToLocal t remoteEnv =
     (case map_of (Mapping t) remoteEnv of
        Some local \<Rightarrow> local
      | None \<Rightarrow>
          (case map_of (Mapping t) ''default'' of
             Some local \<Rightarrow> local
           | None \<Rightarrow> ''''))"

section \<open>Filter (internal/sync, \<open>ShouldSyncSecret\<close>)\<close>

text \<open>
  \<open>filepath.Match\<close> is Go's standard library, not code of the repository: it is a
  parameter of the model. It returns a pair \<open>(matched, err)\<close>; \<open>matchesAny\<close> discards
  the error (\<open>matched, _ := filepath.Match(pattern, name)\<close>).
\<close>

datatype match_error = ErrBadPattern

type_synonym Match = "string \<Rightarrow> string \<Rightarrow> bool \<times> match_error option"

fun matchesAny :: "Match \<Rightarrow> string \<Rightarrow> string list \<Rightarrow> bool" where
  "matchesAny M name [] = False"
| "matchesAny M name (pattern # patterns) =
     (if fst (M pattern name) then True else matchesAny M name patterns)"

definition ShouldSyncSecret :: "Match \<Rightarrow> string \<Rightarrow> Target \<Rightarrow> bool" where
  "ShouldSyncSecret M secretName target =
     (if length (Include (Secrets target)) > 0
         \<and> \<not> matchesAny M secretName (Include (Secrets target)) then False
      else if matchesAny M secretName (Exclude (Secrets target)) then False
      else True)"

fun FilterSecretNames :: "Match \<Rightarrow> string list \<Rightarrow> Target \<Rightarrow> string list" where
  "FilterSecretNames M [] target = []"
| "FilterSecretNames M (name # names) target =
     (if ShouldSyncSecret M name target then name # FilterSecretNames M names target
      else FilterSecretNames M names target)"

text \<open>
  Modelled from the spec: the glob matcher itself is not under src/ (it is Go's
  \<open>filepath.Match\<close>). The spec's words are "shell-style glob (\<open>*\<close>, \<open>?\<close>), single-segment":
  \<open>*\<close> matches any run of characters other than the separator \<open>/\<close>, \<open>?\<close> one such
  character, any other pattern character itself. It is only used to run the filter on
  concrete names; every theorem about the filter holds for any matcher.
\<close>

fun glob :: "string \<Rightarrow> string \<Rightarrow> bool" where
  "glob [] name = (name = [])"
| "glob (p # ps) [] = (p = CHR ''*'' \<and> glob ps [])"
| "glob (p # ps) (c # cs) =
     (if p = CHR ''*'' then glob ps (c # cs) \<or> (c \<noteq> CHR ''/'' \<and> glob (p # ps) cs)
      else if p = CHR ''?'' then c \<noteq> CHR ''/'' \<and> glob ps cs
      else p = c \<and> glob ps cs)"

definition glob_Match :: Match where
  "glob_Match pattern name = (glob pattern name, None)"

section \<open>Errors, providers and the registry (pkg/provider)\<close>

text \<open>
  Go errors are values. \<open>fmt.Errorf("...: %w", x, err)\<close> wraps an error: the wrapping
  constructors keep the formatted name and the wrapped error. \<open>ProviderError\<close> is an
  error a provider implementation returns (factory, List, Set, Delete); \<open>NilPanic\<close>
  stands for a run-time panic on a nil value (calling the nil \<open>Factory\<close> of a zero
  \<open>ProviderInfo\<close>, reading through a nil \<open>*TargetDiff\<close>).
\<close>

datatype error =
    UnknownProvider string               \<comment> \<open>"unknown provider: %s"\<close>
  | ErrCredentialsNotFound               \<comment> \<open>"credentials not found"\<close>
  | AuthenticationFailed string error    \<comment> \<open>"authentication failed for %s: %w"\<close>
  | FailedToList string error            \<comment> \<open>"failed to list secrets from %s: %w"\<close>
  | NoWriteSupport string                \<comment> \<open>"provider %s does not support writing"\<close>
  | SecretError string error             \<comment> \<open>"%s: %w" (secret name, write error)\<close>
  | ProviderError string
  | NilPanic

text \<open>
  A provider instance (\<open>provider.SyncTarget\<close>: Reader and Writer) talks to a remote store.
  The store is a state of type \<open>'s\<close> that every call takes and returns; an error is
  \<open>Inl\<close> for List and \<open>Some\<close> for Set and Delete (Go's non-nil \<open>error\<close>). The context
  argument is passed through by the engine and is left out.
\<close>

record 's SyncTarget =
  p_List :: "'s \<Rightarrow> string \<Rightarrow> (error + SecretValue list) \<times> 's"
  p_Set :: "'s \<Rightarrow> string \<Rightarrow> string \<Rightarrow> string \<Rightarrow> error option \<times> 's"
  p_Delete :: "'s \<Rightarrow> string \<Rightarrow> string \<Rightarrow> error option \<times> 's"

record 's ProviderInfo =
  pi_Name :: string
  DisplayName :: string
  Factory :: "(string \<rightharpoonup> any) \<Rightarrow> error + 's SyncTarget"
  EnvVar :: string
  WriteOnly :: bool
  SdkAuth :: bool
  Beta :: bool

text \<open>The zero value of \<open>ProviderInfo\<close>, which a failed map lookup yields in Go.\<close>

definition zero_ProviderInfo :: "'s ProviderInfo" where
  "zero_ProviderInfo =
     \<lparr>pi_Name = [], DisplayName = [], Factory = (\<lambda>config. Inl NilPanic),
      EnvVar = [], WriteOnly = False, SdkAuth = False, Beta = False\<rparr>"

text \<open>\<open>provider.Get\<close>: \<open>info, ok := registry[name]\<close>.\<close>

definition provider_Get :: "(string \<rightharpoonup> 's ProviderInfo) \<Rightarrow> string \<Rightarrow> 's ProviderInfo \<times> bool" where
  "provider_Get reg name =
     (case reg name of Some info \<Rightarrow> (info, True) | None \<Rightarrow> (zero_ProviderInfo, False))"

definition provider_Create ::
  "(string \<rightharpoonup> 's ProviderInfo) \<Rightarrow> string \<Rightarrow> (string \<rightharpoonup> any) \<Rightarrow> error + 's SyncTarget" where
  "provider_Create reg name config =
     (case provider_Get reg name of
        (info, ok) \<Rightarrow> if \<not> ok then Inl (UnknownProvider name) else Factory info config)"

definition EnvVarFor :: "(string \<rightharpoonup> 's ProviderInfo) \<Rightarrow> string \<Rightarrow> string" where
  "EnvVarFor reg providerType =
     (case provider_Get reg providerType of
        (info, ok) \<Rightarrow> if \<not> ok then [] else EnvVar info)"

text \<open>
  What the engine reads from outside its arguments: the process-wide provider registry,
  the process environment (\<open>os.Getenv\<close>, \<open>os.ExpandEnv\<close>) and \<open>filepath.Match\<close>.
\<close>

record 's world =
  registry :: "string \<rightharpoonup> 's ProviderInfo"
  os_Getenv :: "string \<Rightarrow> string"
  os_ExpandEnv :: "string \<Rightarrow> string"
  filepath_Match :: Match

section \<open>Credentials (internal/auth)\<close>

record Credentials =
  Token :: string
  cr_Source :: string

fun getTokenFromConfig_range :: "(string \<rightharpoonup> any) \<Rightarrow> string list \<Rightarrow> string" where
  "getTokenFromConfig_range config [] = []"
| "getTokenFromConfig_range config (key # keys) =
     (case config_string config key of
        Some val \<Rightarrow> if val \<noteq> [] then val else getTokenFromConfig_range config keys
      | None \<Rightarrow> getTokenFromConfig_range config keys)"

definition getTokenFromConfig :: "(string \<rightharpoonup> any) \<Rightarrow> string" where
  "getTokenFromConfig config =
     getTokenFromConfig_range config [''token'', ''deploy_key'', ''api_key'']"

definition ResolveCredentials ::
  "'s world \<Rightarrow> string \<Rightarrow> (string \<rightharpoonup> any) \<Rightarrow> error + Credentials" where
  "ResolveCredentials w providerType config =
     (let envVar = EnvVarFor (registry w) providerType in
      if envVar \<noteq> [] \<and> os_Getenv w envVar \<noteq> [] then
        Inr \<lparr>Token = os_Getenv w envVar, cr_Source = ''env''\<rparr>
      else
        (let token = getTokenFromConfig config in
         if token \<noteq> [] then Inr \<lparr>Token = os_ExpandEnv w token, cr_Source = ''config''\<rparr>
         else Inl ErrCredentialsNotFound))"

section \<open>Local sources (internal/source)\<close>

text \<open>The \<open>Source\<close> interface. \<open>GetAll\<close> returns a Go map (nil reads as empty).\<close>

record Source =
  Get :: "string \<Rightarrow> string"
  GetAll :: "string list \<Rightarrow> (string \<rightharpoonup> string)"
  src_Name :: string

text \<open>\<open>v, ok := m[k]\<close> on a \<open>map[string]string\<close>: the zero value \<open>""\<close> when absent.\<close>

definition lookup :: "(string \<rightharpoonup> string) \<Rightarrow> string \<Rightarrow> string \<times> bool" where
  "lookup m k = (case m k of Some v \<Rightarrow> (v, True) | None \<Rightarrow> ([], False))"

text \<open>\<open>mockSource\<close> of engine\_test.go: a source over a fixed map of values.\<close>

fun mockSource_GetAll ::
  "(string \<rightharpoonup> string) \<Rightarrow> string list \<Rightarrow> (string \<rightharpoonup> string) \<Rightarrow> (string \<rightharpoonup> string)" where
  "mockSource_GetAll values [] result = result"
| "mockSource_GetAll values (name # names) result =
     (case lookup values name of
        (val, ok) \<Rightarrow>
          if ok then mockSource_GetAll values names (result(name \<mapsto> val))
          else mockSource_GetAll values names result)"

definition mockSource :: "(string \<rightharpoonup> string) \<Rightarrow> Source" where
  "mockSource values =
     \<lparr>Get = (\<lambda>name. fst (lookup values name)),
      GetAll = (\<lambda>names. mockSource_GetAll values names Map.empty),
      src_Name = ''mock source''\<rparr>"

section \<open>The sync engine (internal/sync)\<close>

record SyncOptions =
  DryRun :: bool
  so_Environment :: string
  Progress :: bool   \<comment> \<open>whether the callback is non-nil; its calls are trace events\<close>

record ProgressEvent =
  Phase :: string
  pe_TargetName :: string
  SecretName :: string
  pe_Environment :: string
  Action :: string
  Success :: bool
  Error :: "error option"
  Message :: string

text \<open>Counters are Go \<open>int\<close>s that only count entries of a slice: they cannot overflow,
  and are natural numbers here.\<close>

record SyncResult =
  sr_TargetName :: string
  sr_Environment :: string
  Added :: nat
  Changed :: nat
  Unchanged :: nat
  Unknown :: nat
  Failed :: nat
  Errors :: "error list"

text \<open>
  Everything the engine does to the outside is recorded, in order, as a trace: each call
  of a provider method (a write with the error it returned) and each call of the progress
  callback. The engine functions return their Go result pair, the store after the call and
  the trace of the call.
\<close>

datatype event =
    CallList string
  | CallSet string string string "error option"
  | CallDelete string string "error option"
  | CallProgress ProgressEvent

subsection \<open>\<open>createProvider\<close>\<close>

definition createProvider :: "'s world \<Rightarrow> Target \<Rightarrow> error + 's SyncTarget" where
  "createProvider w target =
     (let provInfo = fst (provider_Get (registry w) (t_Type target)) in
      if SdkAuth provInfo \<or> EnvVar provInfo = [] then
        provider_Create (registry w) (t_Type target) (Config target)
      else
        (case ResolveCredentials w (t_Type target) (Config target) of
           Inl err \<Rightarrow> Inl (AuthenticationFailed (t_Name target) err)
         | Inr creds \<Rightarrow>
             provider_Create (registry w) (t_Type target)
               ((Config target)(''_resolved_token'' \<mapsto> AnyString (Token creds)))))"

subsection \<open>\<open>Engine.Preview\<close>\<close>

text \<open>\<open>for _, s := range remoteSecrets { remoteMap[s.Name] = s.Value }\<close>\<close>

fun remoteMap_range :: "SecretValue list \<Rightarrow> (string \<rightharpoonup> string) \<Rightarrow> (string \<rightharpoonup> string)" where
  "remoteMap_range [] remoteMap = remoteMap"
| "remoteMap_range (s # ss) remoteMap = remoteMap_range ss (remoteMap(sv_Name s \<mapsto> sv_Value s))"

text \<open>The body of the diff loop for one name: \<open>None\<close> is the \<open>continue\<close>.\<close>

definition Preview_entry ::
  "bool \<Rightarrow> string \<Rightarrow> (string \<rightharpoonup> string) \<Rightarrow> (string \<rightharpoonup> string) \<Rightarrow> string \<Rightarrow> SecretDiff option" where
  "Preview_entry writeOnly remoteEnv sourceValues remoteMap name =
     (case lookup sourceValues name of (localValue, hasLocal) \<Rightarrow>
      case lookup remoteMap name of (remoteValue, hasRemote) \<Rightarrow>
        if \<not> hasLocal \<or> localValue = [] then None
        else
          Some \<lparr>sd_Name = name,
                sd_Type =
                  (if writeOnly \<and> hasRemote then DiffUnknown
                   else if \<not> hasRemote then DiffAdd
                   else if localValue \<noteq> remoteValue then DiffChange
                   else DiffUnchanged),
                OldValue = remoteValue,
                NewValue = localValue,
                sd_Environment = remoteEnv,
                Sensitive = False\<rparr>)"

fun Preview_range ::
  "bool \<Rightarrow> string \<Rightarrow> (string \<rightharpoonup> string) \<Rightarrow> (string \<rightharpoonup> string) \<Rightarrow> string list
    \<Rightarrow> SecretDiff list \<Rightarrow> SecretDiff list" where
  "Preview_range writeOnly remoteEnv sourceValues remoteMap [] diffs = diffs"
| "Preview_range writeOnly remoteEnv sourceValues remoteMap (name # names) diffs =
     (case Preview_entry writeOnly remoteEnv sourceValues remoteMap name of
        None \<Rightarrow> Preview_range writeOnly remoteEnv sourceValues remoteMap names diffs
      | Some d \<Rightarrow> Preview_range writeOnly remoteEnv sourceValues remoteMap names (diffs @ [d]))"

definition Preview ::
  "'s world \<Rightarrow> 's \<Rightarrow> string list \<Rightarrow> Source \<Rightarrow> Target \<Rightarrow> string
    \<Rightarrow> (TargetDiff option \<times> error option) \<times> 's \<times> event list" where
  "Preview w s secretNames src target remoteEnv =
     (case createProvider w target of
        Inl err \<Rightarrow> ((None, Some err), s, [])
      | Inr prov \<Rightarrow>
          (let filteredNames = FilterSecretNames (filepath_Match w) secretNames target;
               sourceValues = GetAll src filteredNames
           in case p_List prov s remoteEnv of
                (Inl err, s') \<Rightarrow>
                  ((None, Some (FailedToList (t_Name target) err)), s', [CallList remoteEnv])
              | (Inr remoteSecrets, s') \<Rightarrow>
                  (let writeOnly = WriteOnly (fst (provider_Get (registry w) (t_Type target)));
                       remoteMap = remoteMap_range remoteSecrets Map.empty;
                       diff = \<lparr>td_TargetName = t_Name target, TargetType = t_Type target,
                               Project = GetProject target, Diffs = []\<rparr>
                   in ((Some (diff\<lparr>Diffs :=
                                Preview_range writeOnly remoteEnv sourceValues remoteMap
                                  filteredNames (Diffs diff)\<rparr>), None),
                       s', [CallList remoteEnv]))))"

subsection \<open>\<open>Engine.Sync\<close>\<close>

text \<open>The dry-run tally: \<open>switch d.Type\<close> with four cases and no default.\<close>

fun Sync_tally :: "SecretDiff list \<Rightarrow> SyncResult \<Rightarrow> SyncResult" where
  "Sync_tally [] result = result"
| "Sync_tally (d # ds) result =
     Sync_tally ds
       (case sd_Type d of
          DiffAdd \<Rightarrow> result\<lparr>Added := Added result + 1\<rparr>
        | DiffChange \<Rightarrow> result\<lparr>Changed := Changed result + 1\<rparr>
        | DiffUnchanged \<Rightarrow> result\<lparr>Unchanged := Unchanged result + 1\<rparr>
        | DiffUnknown \<Rightarrow> result\<lparr>Unknown := Unknown result + 1\<rparr>
        | DiffRemove \<Rightarrow> result)"

text \<open>A call of \<open>opts.Progress\<close>, guarded by \<open>if opts.Progress != nil\<close>.\<close>

definition progress :: "SyncOptions \<Rightarrow> ProgressEvent \<Rightarrow> event list \<Rightarrow> event list" where
  "progress opts ev tr = (if Progress opts then tr @ [CallProgress ev] else tr)"

text \<open>
  The body of the apply loop for one DiffEntry, on the result so far, the store and the
  trace. The only provider method it calls is \<open>Set\<close>.
\<close>

definition Sync_entry ::
  "'s SyncTarget \<Rightarrow> Target \<Rightarrow> string \<Rightarrow> SyncOptions \<Rightarrow> SecretDiff
    \<Rightarrow> SyncResult \<times> 's \<times> event list \<Rightarrow> SyncResult \<times> 's \<times> event list" where
  "Sync_entry writer target remoteEnv opts d st =
     (case st of (result, s, tr) \<Rightarrow>
      if sd_Type d = DiffUnchanged then (result\<lparr>Unchanged := Unchanged result + 1\<rparr>, s, tr)
      else
        (let tr1 = progress opts
                     \<lparr>Phase = ''sync'', pe_TargetName = t_Name target, SecretName = sd_Name d,
                      pe_Environment = remoteEnv, Action = DiffType_string (sd_Type d),
                      Success = False, Error = None, Message = ''Syncing '' @ sd_Name d\<rparr> tr
         in case (if sd_Type d = DiffAdd \<or> sd_Type d = DiffChange \<or> sd_Type d = DiffUnknown
                  then (case p_Set writer s (sd_Name d) (NewValue d) remoteEnv of
                          (syncErr, s') \<Rightarrow>
                            (syncErr, s', tr1 @ [CallSet (sd_Name d) (NewValue d) remoteEnv syncErr]))
                  else (None, s, tr1)) of
              (Some syncErr, s', tr2) \<Rightarrow>
                (result\<lparr>Failed := Failed result + 1,
                        Errors := Errors result @ [SecretError (sd_Name d) syncErr]\<rparr>,
                 s',
                 progress opts
                   \<lparr>Phase = ''sync'', pe_TargetName = t_Name target, SecretName = sd_Name d,
                    pe_Environment = remoteEnv, Action = [], Success = False,
                    Error = Some syncErr, Message = []\<rparr> tr2)
            | (None, s', tr2) \<Rightarrow>
                ((case sd_Type d of
                    DiffAdd \<Rightarrow> result\<lparr>Added := Added result + 1\<rparr>
                  | DiffUnknown \<Rightarrow> result\<lparr>Unknown := Unknown result + 1\<rparr>
                  | _ \<Rightarrow> result\<lparr>Changed := Changed result + 1\<rparr>),
                 s',
                 progress opts
                   \<lparr>Phase = ''sync'', pe_TargetName = t_Name target, SecretName = sd_Name d,
                    pe_Environment = remoteEnv, Action = [], Success = True,
                    Error = None, Message = []\<rparr> tr2)))"

fun Sync_range ::
  "'s SyncTarget \<Rightarrow> Target \<Rightarrow> string \<Rightarrow> SyncOptions \<Rightarrow> SecretDiff list
    \<Rightarrow> SyncResult \<times> 's \<times> event list \<Rightarrow> SyncResult \<times> 's \<times> event list" where
  "Sync_range writer target remoteEnv opts [] st = st"
| "Sync_range writer target remoteEnv opts (d # ds) st =
     Sync_range writer target remoteEnv opts ds (Sync_entry writer target remoteEnv opts d st)"

text \<open>
  \<open>writer, ok := prov.(provider.Writer)\<close> cannot fail: \<open>prov\<close> has the interface type
  \<open>provider.SyncTarget\<close>, which embeds \<open>provider.Writer\<close>, and is not nil (Preview has
  already called its List). The \<open>NoWriteSupport\<close> return has no input that reaches it.
\<close>

definition Sync ::
  "'s world \<Rightarrow> 's \<Rightarrow> string list \<Rightarrow> Source \<Rightarrow> Target \<Rightarrow> string \<Rightarrow> SyncOptions
    \<Rightarrow> (SyncResult option \<times> error option) \<times> 's \<times> event list" where
  "Sync w s secretNames src target remoteEnv opts =
     (let result = \<lparr>sr_TargetName = t_Name target, sr_Environment = remoteEnv,
                    Added = 0, Changed = 0, Unchanged = 0, Unknown = 0, Failed = 0,
                    Errors = []\<rparr>
      in case Preview w s secretNames src target remoteEnv of
           ((_, Some err), s1, tr1) \<Rightarrow> ((None, Some err), s1, tr1)
         | ((None, None), s1, tr1) \<Rightarrow> ((None, Some NilPanic), s1, tr1)
         | ((Some diff, None), s1, tr1) \<Rightarrow>
             if DryRun opts then ((Some (Sync_tally (Diffs diff) result), None), s1, tr1)
             else
               (case createProvider w target of
                  Inl err \<Rightarrow> ((None, Some err), s1, tr1)
                | Inr writer \<Rightarrow>
                    (case Sync_range writer target remoteEnv opts (Diffs diff) (result, s1, tr1) of
                       (result', s2, tr2) \<Rightarrow> ((Some result', None), s2, tr2))))"

section \<open>Provider implementations\<close>

text \<open>
  A Go \<open>map[string]string\<close> that a provider ranges over is an association list with
  distinct keys (see \<open>Mapping\<close>). \<open>m[k] = v\<close> replaces the entry of \<open>k\<close>; that the new
  entry is visited last is one of the orders Go allows. \<open>delete(m, k)\<close> drops it.
\<close>

definition map_assign :: "string \<Rightarrow> string \<Rightarrow> (string \<times> string) list \<Rightarrow> (string \<times> string) list" where
  "map_assign k v m = filter (\<lambda>kv. fst kv \<noteq> k) m @ [(k, v)]"

definition map_delete :: "string \<Rightarrow> (string \<times> string) list \<Rightarrow> (string \<times> string) list" where
  "map_delete k m = filter (\<lambda>kv. fst kv \<noteq> k) m"

subsection \<open>The mock provider of engine\_test.go\<close>

text \<open>
  The store is the package variable \<open>sharedMockSecrets\<close>, a map from environment to a
  map from name to value. \<open>setErr\<close> and \<open>delErr\<close> are the instance's fields; its call
  logs \<open>setCalls\<close> and \<open>delCalls\<close> are what the engine's trace records.
\<close>

type_synonym mock_store = "string \<rightharpoonup> (string \<times> string) list"

definition mockProvider_List :: "mock_store \<Rightarrow> string \<Rightarrow> SecretValue list" where
  "mockProvider_List shared env =
     (case shared env of
        Some envSecrets \<Rightarrow>
          map (\<lambda>(name, val). \<lparr>sv_Name = name, sv_Value = val, sv_Environment = env\<rparr>) envSecrets
      | None \<Rightarrow> [])"

definition mockProvider_Set ::
  "error option \<Rightarrow> mock_store \<Rightarrow> string \<Rightarrow> string \<Rightarrow> string \<Rightarrow> error option \<times> mock_store" where
  "mockProvider_Set setErr shared name val env =
     (case setErr of
        Some err \<Rightarrow> (Some err, shared)
      | None \<Rightarrow>
          (None, shared(env \<mapsto> map_assign name val
                                  (case shared env of None \<Rightarrow> [] | Some m \<Rightarrow> m))))"

definition mockProvider_Delete ::
  "error option \<Rightarrow> mock_store \<Rightarrow> string \<Rightarrow> string \<Rightarrow> error option \<times> mock_store" where
  "mockProvider_Delete delErr shared name env =
     (case delErr of
        Some err \<Rightarrow> (Some err, shared)
      | None \<Rightarrow>
          (case shared env of
             Some m \<Rightarrow> (None, shared(env \<mapsto> map_delete name m))
           | None \<Rightarrow> (None, shared)))"

definition mockProvider :: "error option \<Rightarrow> error option \<Rightarrow> mock_store SyncTarget" where
  "mockProvider setErr delErr =
     \<lparr>p_List = (\<lambda>shared env. (Inr (mockProvider_List shared env), shared)),
      p_Set = mockProvider_Set setErr,
      p_Delete = mockProvider_Delete delErr\<rparr>"

text \<open>The registration in \<open>init()\<close> of engine\_test.go.\<close>

definition mock_ProviderInfo :: "mock_store ProviderInfo" where
  "mock_ProviderInfo =
     \<lparr>pi_Name = ''mock'', DisplayName = ''Mock Provider'',
      Factory = (\<lambda>config. Inr (mockProvider None None)),
      EnvVar = [], WriteOnly = False, SdkAuth = False, Beta = False\<rparr>"

subsection \<open>The Supabase provider (providers/supabase), a write-only platform\<close>

text \<open>
  The HTTP client's three calls are a parameter: functions on the state of the remote
  project, made from the access token and the project reference (\<open>NewClient\<close>).
\<close>

record Secret =
  sec_Name :: string
  sec_Value :: string

record 's Client =
  ListSecrets :: "'s \<Rightarrow> (error + Secret list) \<times> 's"
  UpsertSecrets :: "'s \<Rightarrow> Secret list \<Rightarrow> error option \<times> 's"
  DeleteSecrets :: "'s \<Rightarrow> string list \<Rightarrow> error option \<times> 's"

definition supabase_Provider :: "'s Client \<Rightarrow> 's SyncTarget" where
  "supabase_Provider client =
     \<lparr>p_List = (\<lambda>s environment.
        case ListSecrets client s of
          (Inl err, s') \<Rightarrow> (Inl err, s')
        | (Inr secrets, s') \<Rightarrow>
            (Inr (map (\<lambda>x. \<lparr>sv_Name = sec_Name x, sv_Value = [],
                               sv_Environment = environment\<rparr>) secrets), s')),
      p_Set = (\<lambda>s name val environment.
        UpsertSecrets client s [\<lparr>sec_Name = name, sec_Value = val\<rparr>]),
      p_Delete = (\<lambda>s name environment. DeleteSecrets client s [name])\<rparr>"

text \<open>\<open>token, _ := config[k].(string)\<close>: the empty string unless a string is stored.\<close>

definition config_string_or_empty :: "(string \<rightharpoonup> any) \<Rightarrow> string \<Rightarrow> string" where
  "config_string_or_empty config k = (case config_string config k of Some v \<Rightarrow> v | None \<Rightarrow> [])"

definition supabase_New ::
  "(string \<Rightarrow> string \<Rightarrow> 's Client) \<Rightarrow> (string \<rightharpoonup> any) \<Rightarrow> error + 's SyncTarget" where
  "supabase_New NewClient config =
     (let token = config_string_or_empty config ''_resolved_token'';
          token = (if token = [] then config_string_or_empty config ''token'' else token)
      in if token = [] then Inl (ProviderError ''supabase: access token is required'')
         else
           (let projectRef = config_string_or_empty config ''project_ref''
            in if projectRef = [] then Inl (ProviderError ''supabase: project_ref is required'')
               else Inr (supabase_Provider (NewClient token projectRef))))"

definition supabase_ProviderInfo :: "(string \<Rightarrow> string \<Rightarrow> 's Client) \<Rightarrow> 's ProviderInfo" where
  "supabase_ProviderInfo NewClient =
     \<lparr>pi_Name = ''supabase'', DisplayName = ''Supabase'', Factory = supabase_New NewClient,
      EnvVar = ''SUPABASE_ACCESS_TOKEN'', WriteOnly = True, SdkAuth = False, Beta = False\<rparr>"

text \<open>
  A remote project held in memory, to run the Supabase provider on concrete inputs: the
  project's secrets are a map from name to value, listing returns the names without their
  values (as the API does), an upsert stores each secret, and no call fails.
\<close>

fun memory_upsert :: "Secret list \<Rightarrow> (string \<times> string) list \<Rightarrow> (string \<times> string) list" where
  "memory_upsert [] m = m"
| "memory_upsert (x # xs) m = memory_upsert xs (map_assign (sec_Name x) (sec_Value x) m)"

fun memory_delete :: "string list \<Rightarrow> (string \<times> string) list \<Rightarrow> (string \<times> string) list" where
  "memory_delete [] m = m"
| "memory_delete (k # ks) m = memory_delete ks (map_delete k m)"

definition memory_Client :: "string \<Rightarrow> string \<Rightarrow> ((string \<times> string) list) Client" where
  "memory_Client accessToken projectRef =
     \<lparr>ListSecrets = (\<lambda>m. (Inr (map (\<lambda>kv. \<lparr>sec_Name = fst kv, sec_Value = []\<rparr>) m), m)),
      UpsertSecrets = (\<lambda>m secrets. (None, memory_upsert secrets m)),
      DeleteSecrets = (\<lambda>m names. (None, memory_delete names m))\<rparr>"

section \<open>Reading a trace\<close>

text \<open>The writes of a trace, in order: name, value, environment and the error returned.\<close>

fun set_calls :: "event list \<Rightarrow> (string \<times> string \<times> string \<times> error option) list" where
  "set_calls [] = []"
| "set_calls (CallSet name val env r # tr) = (name, val, env, r) # set_calls tr"
| "set_calls (_ # tr) = set_calls tr"

fun delete_calls :: "event list \<Rightarrow> (string \<times> string \<times> error option) list" where
  "delete_calls [] = []"
| "delete_calls (CallDelete name env r # tr) = (name, env, r) # delete_calls tr"
| "delete_calls (_ # tr) = delete_calls tr"

text \<open>The writes that returned an error, as (name, error).\<close>

fun failed_sets :: "(string \<times> string \<times> string \<times> error option) list \<Rightarrow> (string \<times> error) list" where
  "failed_sets [] = []"
| "failed_sets ((name, val, env, Some err) # cs) = (name, err) # failed_sets cs"
| "failed_sets ((name, val, env, None) # cs) = failed_sets cs"

section \<open>The specification's words\<close>

text \<open>
  The classification rule as the specification states it, for a name with a non-empty local
  value: Unknown if the platform is write-only and a remote entry exists; otherwise Add if
  no remote entry exists; otherwise Change if the remote value differs from the local one;
  otherwise Unchanged. \<open>remote\<close> is the remote entry, if any.
\<close>

definition spec_classification :: "bool \<Rightarrow> string \<Rightarrow> string option \<Rightarrow> DiffType" where
  "spec_classification writeOnly localValue remote =
     (if writeOnly \<and> remote \<noteq> None then DiffUnknown
      else if remote = None then DiffAdd
      else if remote \<noteq> Some localValue then DiffChange
      else DiffUnchanged)"

section \<open>Auxiliary notions for the apply loop\<close>

text \<open>The entries for which the apply loop calls \<open>Set\<close> (its \<open>switch d.Type\<close>).\<close>

definition writes :: "SecretDiff \<Rightarrow> bool" where
  "writes d = (sd_Type d = DiffAdd \<or> sd_Type d = DiffChange \<or> sd_Type d = DiffUnknown)"

text \<open>A recorded write that returned no error.\<close>

definition call_ok :: "string \<times> string \<times> string \<times> error option \<Rightarrow> bool" where
  "call_ok c = (snd (snd (snd c)) = None)"

text \<open>
  The \<open>Set\<close> calls that applying a list of entries makes from a given store, each with the
  error the provider returns at that point; the store is threaded through the calls.
\<close>

fun writes_of ::
  "'s SyncTarget \<Rightarrow> string \<Rightarrow> SecretDiff list \<Rightarrow> 's
    \<Rightarrow> (string \<times> string \<times> string \<times> error option) list" where
  "writes_of writer remoteEnv [] s = []"
| "writes_of writer remoteEnv (d # ds) s =
     (if writes d then
        (sd_Name d, NewValue d, remoteEnv, fst (p_Set writer s (sd_Name d) (NewValue d) remoteEnv))
          # writes_of writer remoteEnv ds (snd (p_Set writer s (sd_Name d) (NewValue d) remoteEnv))
      else writes_of writer remoteEnv ds s)"

text \<open>
  Replaying recorded writes on a store: the store after them, provided each call returns
  what the record says it returned.
\<close>

fun store_after ::
  "'s SyncTarget \<Rightarrow> 's \<Rightarrow> (string \<times> string \<times> string \<times> error option) list \<Rightarrow> 's option" where
  "store_after writer s [] = Some s"
| "store_after writer s ((name, val, env, r) # cs) =
     (case p_Set writer s name val env of
        (r', s') \<Rightarrow> if r' = r then store_after writer s' cs else None)"


section \<open>Concrete inputs\<close>

definition stripe_target :: Target where
  "stripe_target =
     \<lparr>t_Name = ''vercel'', t_Type = ''mock'', Mapping = [(''development'', ''test'')],
      Secrets = \<lparr>Include = [''STRIPE_*''], Exclude = [''*_TEST'']\<rparr>,
      Config = Map.empty\<rparr>"

definition fanout_target :: Target where
  "fanout_target =
     \<lparr>t_Name = ''vercel'', t_Type = ''mock'',
      Mapping = [(''development'', ''test''), (''preview'', ''test''), (''default'', ''live'')],
      Secrets = \<lparr>Include = [], Exclude = []\<rparr>,
      Config = Map.empty\<rparr>"

text \<open>A Supabase project that cannot be reached: every call returns the transport's error.\<close>

definition unreachable_Client :: "string \<Rightarrow> string \<Rightarrow> ((string \<times> string) list) Client" where
  "unreachable_Client accessToken projectRef =
     \<lparr>ListSecrets = (\<lambda>m. (Inl (ProviderError ''connection refused''), m)),
      UpsertSecrets = (\<lambda>m secrets. (Some (ProviderError ''connection refused''), m)),
      DeleteSecrets = (\<lambda>m names. (Some (ProviderError ''connection refused''), m))\<rparr>"

definition mock_world :: "mock_store world" where
  "mock_world =
     \<lparr>registry = [''mock'' \<mapsto> mock_ProviderInfo],
      os_Getenv = (\<lambda>name. []), os_ExpandEnv = (\<lambda>s. s), filepath_Match = glob_Match\<rparr>"

definition mock_target :: Target where
  "mock_target =
     \<lparr>t_Name = ''test-target'', t_Type = ''mock'', Mapping = [(''development'', ''test'')],
      Secrets = \<lparr>Include = [], Exclude = []\<rparr>,
      Config = [''token'' \<mapsto> AnyString ''test'']\<rparr>"

definition demo_names :: "string list" where
  "demo_names = [''API_KEY'', ''OLD_KEY'', ''EMPTY_KEY'', ''DB_URL'', ''SAME_KEY'']"

definition demo_source :: Source where
  "demo_source = mockSource [''API_KEY'' \<mapsto> ''v1'', ''EMPTY_KEY'' \<mapsto> [],
                             ''DB_URL'' \<mapsto> ''new'', ''SAME_KEY'' \<mapsto> ''same'']"

definition demo_store :: mock_store where
  "demo_store = [''development'' \<mapsto>
      [(''OLD_KEY'', ''old''), (''EMPTY_KEY'', ''x''), (''DB_URL'', ''prev''), (''SAME_KEY'', ''same'')]]"

definition demo_diffs :: "SecretDiff list" where
  "demo_diffs =
     [\<lparr>sd_Name = ''API_KEY'', sd_Type = DiffAdd, OldValue = [], NewValue = ''v1'',
       sd_Environment = ''development'', Sensitive = False\<rparr>,
      \<lparr>sd_Name = ''DB_URL'', sd_Type = DiffChange, OldValue = ''prev'', NewValue = ''new'',
       sd_Environment = ''development'', Sensitive = False\<rparr>,
      \<lparr>sd_Name = ''SAME_KEY'', sd_Type = DiffUnchanged, OldValue = ''same'', NewValue = ''same'',
       sd_Environment = ''development'', Sensitive = False\<rparr>]"

definition demo_diff :: TargetDiff where
  "demo_diff = \<lparr>td_TargetName = ''test-target'', TargetType = ''mock'', Project = [],
                 Diffs = demo_diffs\<rparr>"

definition supabase_world :: "((string \<times> string) list) world" where
  "supabase_world =
     \<lparr>registry = [''supabase'' \<mapsto> supabase_ProviderInfo memory_Client],
      os_Getenv = (\<lambda>name. if name = ''SUPABASE_ACCESS_TOKEN'' then ''sbp_token_123'' else []),
      os_ExpandEnv = (\<lambda>s. s), filepath_Match = glob_Match\<rparr>"

definition supabase_target :: Target where
  "supabase_target =
     \<lparr>t_Name = ''functions'', t_Type = ''supabase'', Mapping = [(''default'', ''test'')],
      Secrets = \<lparr>Include = [], Exclude = []\<rparr>,
      Config = [''project_ref'' \<mapsto> AnyString ''abcdefghijklmnop'']\<rparr>"

definition supabase_source :: Source where
  "supabase_source = mockSource [''KEY'' \<mapsto> ''x'', ''FRESH'' \<mapsto> ''y'']"

definition supabase_names :: "string list" where
  "supabase_names = [''KEY'', ''FRESH'', ''UNSET'']"

definition supabase_store :: "(string \<times> string) list" where
  "supabase_store = [(''KEY'', ''x''), (''UNSET'', ''z'')]"

definition supabase_diffs :: "SecretDiff list" where
  "supabase_diffs =
     [\<lparr>sd_Name = ''KEY'', sd_Type = DiffUnknown, OldValue = [], NewValue = ''x'',
       sd_Environment = ''default'', Sensitive = False\<rparr>,
      \<lparr>sd_Name = ''FRESH'', sd_Type = DiffAdd, OldValue = [], NewValue = ''y'',
       sd_Environment = ''default'', Sensitive = False\<rparr>]"

definition supabase_diff :: TargetDiff where
  "supabase_diff = \<lparr>td_TargetName = ''functions'', TargetType = ''supabase'',
                     Project = ''abcdefghijklmnop'', Diffs = supabase_diffs\<rparr>"

definition no_token_world :: "((string \<times> string) list) world" where
  "no_token_world = supabase_world\<lparr>os_Getenv := (\<lambda>name. [])\<rparr>"

definition no_ref_target :: Target where
  "no_ref_target = supabase_target\<lparr>Config := Map.empty\<rparr>"

definition unreachable_world :: "((string \<times> string) list) world" where
  "unreachable_world =
     supabase_world\<lparr>registry := [''supabase'' \<mapsto> supabase_ProviderInfo unreachable_Client]\<rparr>"

definition demo_opts :: SyncOptions where
  "demo_opts = \<lparr>DryRun = False, so_Environment = ''test'', Progress = False\<rparr>"

definition dry_opts :: SyncOptions where
  "dry_opts = \<lparr>DryRun = True, so_Environment = ''test'', Progress = False\<rparr>"

definition failing_world :: "mock_store world" where
  "failing_world =
     mock_world\<lparr>registry := [''mock'' \<mapsto> mock_ProviderInfo
        \<lparr>Factory := (\<lambda>config. Inr (mockProvider (Some (ProviderError ''set failed'')) None))\<rparr>]\<rparr>"

definition demo_store_synced :: mock_store where
  "demo_store_synced = [''development'' \<mapsto>
      [(''OLD_KEY'', ''old''), (''EMPTY_KEY'', ''x''), (''SAME_KEY'', ''same''),
       (''API_KEY'', ''v1''), (''DB_URL'', ''new'')]]"

definition demo_result :: SyncResult where
  "demo_result = \<lparr>sr_TargetName = ''test-target'', sr_Environment = ''development'',
      Added = 1, Changed = 1, Unchanged = 1, Unknown = 0, Failed = 0, Errors = []\<rparr>"

definition failed_result :: SyncResult where
  "failed_result = \<lparr>sr_TargetName = ''test-target'', sr_Environment = ''development'',
      Added = 0, Changed = 0, Unchanged = 1, Unknown = 0, Failed = 2,
      Errors = [SecretError ''API_KEY'' (ProviderError ''set failed''),
                SecretError ''DB_URL'' (ProviderError ''set failed'')]\<rparr>"

definition dry_result :: SyncResult where
  "dry_result = \<lparr>sr_TargetName = ''test-target'', sr_Environment = ''development'',
      Added = 1, Changed = 1, Unchanged = 1, Unknown = 0, Failed = 0, Errors = []\<rparr>"

section \<open>The filter and the environment mapper\<close>

lemma matchesAny_iff: "matchesAny M name patterns = (\<exists>p \<in> set patterns. fst (M p name))"
  by (induction patterns) auto

lemma FilterSecretNames_filter:
  "FilterSecretNames M names target = filter (\<lambda>name. ShouldSyncSecret M name target) names"
  by (induction names) auto

text \<open>
  Claim C6 (filter composition). For every matcher, name and target, \<open>ShouldSyncSecret\<close>
  is true exactly when the include list is empty or some include pattern matches the
  name, and no exclude pattern matches it. In particular every name passes when both lists
  are empty, and a name that an exclude pattern matches is rejected whatever the include
  list says.
\<close>

theorem ShouldSyncSecret_composition:
  "ShouldSyncSecret M name target =
     ((Include (Secrets target) = [] \<or> (\<exists>p \<in> set (Include (Secrets target)). fst (M p name)))
      \<and> \<not> (\<exists>p \<in> set (Exclude (Secrets target)). fst (M p name)))
   \<and> (Include (Secrets target) = [] \<and> Exclude (Secrets target) = []
        \<longrightarrow> ShouldSyncSecret M name target)
   \<and> ((\<exists>p \<in> set (Exclude (Secrets target)). fst (M p name))
        \<longrightarrow> \<not> ShouldSyncSecret M name target)"
  by (auto simp: ShouldSyncSecret_def matchesAny_iff)

text \<open>The spec's scenario 5: include \<open>STRIPE_*\<close>, exclude \<open>*_TEST\<close>.\<close>

theorem ShouldSyncSecret_composition_witness:
  "ShouldSyncSecret glob_Match ''STRIPE_KEY'' stripe_target
   \<and> \<not> ShouldSyncSecret glob_Match ''STRIPE_KEY_TEST'' stripe_target
   \<and> \<not> ShouldSyncSecret glob_Match ''OTHER'' stripe_target
   \<and> FilterSecretNames glob_Match [''STRIPE_KEY'', ''STRIPE_KEY_TEST'', ''OTHER''] stripe_target
       = [''STRIPE_KEY'']"
  using ShouldSyncSecret_composition [of glob_Match "''STRIPE_KEY''" stripe_target]
        ShouldSyncSecret_composition [of glob_Match "''STRIPE_KEY_TEST''" stripe_target]
        ShouldSyncSecret_composition [of glob_Match "''OTHER''" stripe_target]
  by (simp add: stripe_target_def glob_Match_def)

lemma MapToRemote_range_eq:
  "MapToRemote_range m l acc = acc @ map fst (filter (\<lambda>kv. snd kv = l) m)"
  by (induction m l acc rule: MapToRemote_range.induct) auto

lemma set_MapToRemote:
  "distinct (map fst (Mapping t)) \<Longrightarrow>
   set (MapToRemote t l) = {remote. map_of (Mapping t) remote = Some l}"
  by (auto simp: MapToRemote_def MapToRemote_range_eq image_iff 
      dest: map_of_SomeD)

lemma distinct_MapToRemote:
  "distinct (map fst (Mapping t)) \<Longrightarrow> distinct (MapToRemote t l)"
  by (simp add: MapToRemote_def MapToRemote_range_eq distinct_map_filter)

lemma MapToLocal_cases:
  "MapToLocal t remoteEnv =
        (if remoteEnv \<in> dom (map_of (Mapping t)) then the (map_of (Mapping t) remoteEnv)
         else if ''default'' \<in> dom (map_of (Mapping t)) then the (map_of (Mapping t) ''default'')
         else [])"
  by (simp add: MapToLocal_def dom_def split: option.splits)

text \<open>
  Claim C8 (environment mapper). On a mapping table (a Go map: distinct keys, visited in
  any order), \<open>MapToRemote\<close> returns each key whose value is the local environment, once,
  and nothing else; \<open>MapToLocal\<close> returns the entry of the exact key if there is one, else
  the entry of \<open>"default"\<close> if there is one, else the empty string; on a nil or empty table
  both return empty results. Both are functions of the target and the name alone.
\<close>

theorem Mapper_contract:
  assumes "distinct (map fst (Mapping t))"
  shows "set (MapToRemote t localEnv) = {remote. map_of (Mapping t) remote = Some localEnv}
    \<and> distinct (MapToRemote t localEnv)
    \<and> MapToLocal t remoteEnv =
        (if remoteEnv \<in> dom (map_of (Mapping t)) then the (map_of (Mapping t) remoteEnv)
         else if ''default'' \<in> dom (map_of (Mapping t)) then the (map_of (Mapping t) ''default'')
         else [])
    \<and> (Mapping t = [] \<longrightarrow> MapToRemote t localEnv = [] \<and> MapToLocal t remoteEnv = [])"
proof -
  have empty: "Mapping t = [] \<longrightarrow> MapToRemote t localEnv = [] \<and> MapToLocal t remoteEnv = []"
    by (simp add: MapToRemote_def MapToLocal_def)
  show ?thesis
    using set_MapToRemote [OF assms] distinct_MapToRemote [OF assms] MapToLocal_cases empty
    by blast
qed

text \<open>A table with a fan-out (two remotes for \<open>test\<close>) and a \<open>"default"\<close> entry.\<close>

theorem Mapper_contract_witness:
  "distinct (map fst (Mapping fanout_target))
   \<and> MapToRemote fanout_target ''test'' = [''development'', ''preview'']
   \<and> {remote. map_of (Mapping fanout_target) remote = Some ''test''}
        = {''development'', ''preview''}
   \<and> MapToRemote fanout_target ''staging'' = []
   \<and> MapToLocal fanout_target ''preview'' = ''test''
   \<and> MapToLocal fanout_target ''production'' = ''live''"
proof -
  have d: "distinct (map fst (Mapping fanout_target))"
    by (simp add: fanout_target_def)
  have r: "MapToRemote fanout_target ''test'' = [''development'', ''preview'']"
    by (simp add: fanout_target_def MapToRemote_def)
  have e: "MapToRemote fanout_target ''staging'' = []"
    by (simp add: fanout_target_def MapToRemote_def)
  have l1: "map_of (Mapping fanout_target) ''preview'' = Some ''test''"
    by (simp add: fanout_target_def)
  have l2: "map_of (Mapping fanout_target) ''production'' = None"
    by (simp add: fanout_target_def)
  have l3: "map_of (Mapping fanout_target) ''default'' = Some ''live''"
    by (simp add: fanout_target_def)
  note c1 = Mapper_contract [OF d, of "''test''" "''preview''"]
  note c2 = Mapper_contract [OF d, of "''test''" "''production''"]
  have s: "{remote. map_of (Mapping fanout_target) remote = Some ''test''}
        = {''development'', ''preview''}"
    using c1 by (simp only: r list.set) 
  have m1: "MapToLocal fanout_target ''preview'' = ''test''"
    using c1 by (simp add: dom_def l1)
  have m2: "MapToLocal fanout_target ''production'' = ''live''"
    using c2 by (simp add: dom_def l2 l3)
  show ?thesis using d r s e m1 m2 by simp
qed

section \<open>\<open>Engine.Preview\<close>\<close>

lemma Preview_range_eq:
  "Preview_range wo env sv rm names diffs = diffs @ List.map_filter (Preview_entry wo env sv rm) names"
  by (induction names arbitrary: diffs) (auto simp: List.map_filter_simps split: option.splits)

lemma Preview_success:
  assumes "createProvider w target = Inr prov" and "p_List prov s env = (Inr xs, s')"
  shows "Preview w s names src target env =
    ((Some \<lparr>td_TargetName = t_Name target, TargetType = t_Type target,
             Project = GetProject target,
             Diffs = List.map_filter
                (Preview_entry (WriteOnly (fst (provider_Get (registry w) (t_Type target)))) env
                   (GetAll src (FilterSecretNames (filepath_Match w) names target))
                   (remoteMap_range xs Map.empty))
                (FilterSecretNames (filepath_Match w) names target)\<rparr>, None),
     s', [CallList env])"
  using assms by (simp add: Preview_def Let_def Preview_range_eq)

lemma Preview_create_failed:
  "createProvider w target = Inl err \<Longrightarrow>
   Preview w s names src target env = ((None, Some err), s, [])"
  by (simp add: Preview_def)

lemma Preview_list_failed:
  "createProvider w target = Inr prov \<Longrightarrow> p_List prov s env = (Inl err, s') \<Longrightarrow>
   Preview w s names src target env =
     ((None, Some (FailedToList (t_Name target) err)), s', [CallList env])"
  by (simp add: Preview_def Let_def)

lemma Preview_Some_cases:
  assumes "Preview w s names src target env = ((Some diff, err), s', tr)"
  shows "\<exists>prov xs. createProvider w target = Inr prov \<and> p_List prov s env = (Inr xs, s')
           \<and> err = None \<and> tr = [CallList env]"
proof (cases "createProvider w target")
  case (Inl e)
  with assms show ?thesis by (simp add: Preview_create_failed)
next
  case (Inr prov)
  obtain r s1 where l: "p_List prov s env = (r, s1)" by (cases "p_List prov s env")
  show ?thesis
  proof (cases r)
    case (Inl e)
    with assms Inr l show ?thesis by (simp add: Preview_list_failed)
  next
    case (Inr xs)
    with assms \<open>createProvider w target = Inr prov\<close> l show ?thesis
      by (simp add: Preview_success)
  qed
qed

lemma Preview_entry_None:
  "(Preview_entry wo env sv rm name = None) = (sv name = None \<or> sv name = Some [])"
  by (auto simp: Preview_entry_def lookup_def split: option.splits)

lemma Preview_entry_Some:
  "sv name = Some v \<Longrightarrow> v \<noteq> [] \<Longrightarrow>
   Preview_entry wo env sv rm name =
     Some \<lparr>sd_Name = name, sd_Type = spec_classification wo v (rm name),
           OldValue = (case rm name of None \<Rightarrow> [] | Some old \<Rightarrow> old),
           NewValue = v, sd_Environment = env, Sensitive = False\<rparr>"
  by (auto simp: Preview_entry_def lookup_def spec_classification_def split: option.splits)

lemma map_filter_Preview_entry:
  "List.map_filter (Preview_entry wo env sv rm) names =
   map (\<lambda>name. \<lparr>sd_Name = name, sd_Type = spec_classification wo (the (sv name)) (rm name),
           OldValue = (case rm name of None \<Rightarrow> [] | Some old \<Rightarrow> old),
           NewValue = the (sv name), sd_Environment = env, Sensitive = False\<rparr>)
     (filter (\<lambda>name. sv name \<noteq> None \<and> sv name \<noteq> Some []) names)"
proof (induction names)
  case Nil
  show ?case by (simp add: List.map_filter_simps)
next
  case (Cons n ns)
  show ?case
  proof (cases "sv n = None \<or> sv n = Some []")
    case True
    then have "Preview_entry wo env sv rm n = None" by (simp add: Preview_entry_None)
    with True Cons show ?thesis by (auto simp: List.map_filter_simps)
  next
    case False
    then obtain v where v: "sv n = Some v" "v \<noteq> []" by auto
    from Preview_entry_Some [of sv n v wo env rm] v Cons show ?thesis
      by (simp add: List.map_filter_simps)
  qed
qed

lemma remoteMap_range_eq:
  "remoteMap_range xs m = m ++ map_of (rev (map (\<lambda>x. (sv_Name x, sv_Value x)) xs))"
  by (induction xs arbitrary: m) (auto simp: map_add_upd_left fun_eq_iff map_add_def split: option.splits)

lemma dom_remoteMap_range: "dom (remoteMap_range xs m) = dom m \<union> sv_Name ` set xs"
  by (induction xs arbitrary: m) auto

lemma createProvider_mock: "createProvider mock_world mock_target = Inr (mockProvider None None)"
  by (simp add: createProvider_def provider_Get_def provider_Create_def mock_world_def
      mock_target_def mock_ProviderInfo_def)

lemma WriteOnly_mock:
  "WriteOnly (fst (provider_Get (registry mock_world) (t_Type mock_target))) = False"
  by (simp add: provider_Get_def mock_world_def mock_target_def mock_ProviderInfo_def)

lemma Filter_demo: "FilterSecretNames (filepath_Match mock_world) demo_names mock_target = demo_names"
  by (simp add: demo_names_def mock_world_def mock_target_def ShouldSyncSecret_def)

lemma GetAll_demo:
  "GetAll demo_source demo_names =
     [''API_KEY'' \<mapsto> ''v1'', ''EMPTY_KEY'' \<mapsto> [], ''DB_URL'' \<mapsto> ''new'', ''SAME_KEY'' \<mapsto> ''same'']"
  by (simp add: demo_source_def demo_names_def mockSource_def lookup_def fun_eq_iff)

lemma List_demo:
  "p_List (mockProvider None None) demo_store ''development'' =
     (Inr [\<lparr>sv_Name = ''OLD_KEY'', sv_Value = ''old'', sv_Environment = ''development''\<rparr>,
           \<lparr>sv_Name = ''EMPTY_KEY'', sv_Value = ''x'', sv_Environment = ''development''\<rparr>,
           \<lparr>sv_Name = ''DB_URL'', sv_Value = ''prev'', sv_Environment = ''development''\<rparr>,
           \<lparr>sv_Name = ''SAME_KEY'', sv_Value = ''same'', sv_Environment = ''development''\<rparr>],
      demo_store)"
  by (simp add: mockProvider_def mockProvider_List_def demo_store_def)

lemma Preview_demo:
  "Preview mock_world demo_store demo_names demo_source mock_target ''development'' =
     ((Some demo_diff, None), demo_store, [CallList ''development''])"
  apply (simp only: Preview_success [OF createProvider_mock List_demo] Filter_demo GetAll_demo
      WriteOnly_mock)
  apply (simp add: demo_names_def List.map_filter_simps Preview_entry_def lookup_def
      demo_diff_def demo_diffs_def mock_target_def GetProject_def config_string_def)
  done

text \<open>
  Claim C1 (no-delete invariant). Whenever \<open>Preview\<close> returns a TargetDiff, a name whose
  local value (the source's answer for the filtered working set) is absent or the empty
  string has no DiffEntry in it, whatever the store lists for that name.
\<close>

theorem Preview_no_entry_without_local_value:
  assumes "Preview w s secretNames src target remoteEnv = ((Some diff, err), s', tr)"
      and "GetAll src (FilterSecretNames (filepath_Match w) secretNames target) name = None
           \<or> GetAll src (FilterSecretNames (filepath_Match w) secretNames target) name = Some []"
  shows "name \<notin> sd_Name ` set (Diffs diff)"
proof -
  from Preview_Some_cases [OF assms(1)] obtain prov xs where
    p: "createProvider w target = Inr prov" "p_List prov s remoteEnv = (Inr xs, s')"
    by blast
  from assms(1) Preview_success [OF p, of secretNames src]
  have "sd_Name ` set (Diffs diff) \<subseteq>
        {n. GetAll src (FilterSecretNames (filepath_Match w) secretNames target) n \<noteq> None
          \<and> GetAll src (FilterSecretNames (filepath_Match w) secretNames target) n \<noteq> Some []}"
    by (auto simp: map_filter_Preview_entry)
  with assms(2) show ?thesis by blast
qed

text \<open>\<open>OLD_KEY\<close> has no local value and \<open>EMPTY_KEY\<close> an empty one; the store holds both.\<close>

theorem Preview_no_entry_without_local_value_witness:
  "Preview mock_world demo_store demo_names demo_source mock_target ''development''
     = ((Some demo_diff, None), demo_store, [CallList ''development''])
   \<and> GetAll demo_source (FilterSecretNames (filepath_Match mock_world) demo_names mock_target)
        ''OLD_KEY'' = None
   \<and> GetAll demo_source (FilterSecretNames (filepath_Match mock_world) demo_names mock_target)
        ''EMPTY_KEY'' = Some []
   \<and> ''OLD_KEY'' \<notin> sd_Name ` set (Diffs demo_diff)
   \<and> ''EMPTY_KEY'' \<notin> sd_Name ` set (Diffs demo_diff)
   \<and> map sd_Name (Diffs demo_diff) = [''API_KEY'', ''DB_URL'', ''SAME_KEY'']"
proof -
  have a: "GetAll demo_source (FilterSecretNames (filepath_Match mock_world) demo_names mock_target)
        ''OLD_KEY'' = None"
    by (simp add: Filter_demo GetAll_demo)
  have b: "GetAll demo_source (FilterSecretNames (filepath_Match mock_world) demo_names mock_target)
        ''EMPTY_KEY'' = Some []"
    by (simp add: Filter_demo GetAll_demo)
  have c: "map sd_Name (Diffs demo_diff) = [''API_KEY'', ''DB_URL'', ''SAME_KEY'']"
    by (simp add: demo_diff_def demo_diffs_def)
  from Preview_no_entry_without_local_value [OF Preview_demo, of "''OLD_KEY''"] a
  have d: "''OLD_KEY'' \<notin> sd_Name ` set (Diffs demo_diff)" by blast
  from Preview_no_entry_without_local_value [OF Preview_demo, of "''EMPTY_KEY''"] b
  have e: "''EMPTY_KEY'' \<notin> sd_Name ` set (Diffs demo_diff)" by blast
  from Preview_demo a b c d e show ?thesis by blast
qed

text \<open>
  Claim C2 (classification rule). When the provider is constructed and its List call
  succeeds, \<open>Preview\<close> returns a TargetDiff whose entries are, in the order of the filtered
  names, exactly the names with a non-empty local value, each classified by the
  specification's rule on the platform's write-only flag, the local value and the remote
  entry, with the remote value as old and the local value as new value. A remote entry
  exists for exactly the names the store listed.
\<close>

theorem Preview_classification:
  assumes "createProvider w target = Inr prov"
      and "p_List prov s remoteEnv = (Inr remoteSecrets, s')"
  shows "\<exists>diff.
     Preview w s secretNames src target remoteEnv = ((Some diff, None), s', [CallList remoteEnv])
   \<and> Diffs diff =
       map (\<lambda>name.
             \<lparr>sd_Name = name,
              sd_Type = spec_classification
                 (WriteOnly (fst (provider_Get (registry w) (t_Type target))))
                 (the (GetAll src (FilterSecretNames (filepath_Match w) secretNames target) name))
                 (remoteMap_range remoteSecrets Map.empty name),
              OldValue = (case remoteMap_range remoteSecrets Map.empty name of
                            None \<Rightarrow> [] | Some old \<Rightarrow> old),
              NewValue =
                 the (GetAll src (FilterSecretNames (filepath_Match w) secretNames target) name),
              sd_Environment = remoteEnv, Sensitive = False\<rparr>)
         (filter (\<lambda>name.
              GetAll src (FilterSecretNames (filepath_Match w) secretNames target) name \<noteq> None
            \<and> GetAll src (FilterSecretNames (filepath_Match w) secretNames target) name \<noteq> Some [])
            (FilterSecretNames (filepath_Match w) secretNames target))
   \<and> dom (remoteMap_range remoteSecrets Map.empty) = sv_Name ` set remoteSecrets"
  by (simp add: Preview_success [OF assms] map_filter_Preview_entry dom_remoteMap_range)

lemma createProvider_supabase:
  "createProvider supabase_world supabase_target
     = Inr (supabase_Provider (memory_Client ''sbp_token_123'' ''abcdefghijklmnop''))"
  by (simp add: createProvider_def provider_Get_def provider_Create_def supabase_world_def
      supabase_target_def supabase_ProviderInfo_def ResolveCredentials_def EnvVarFor_def
      supabase_New_def config_string_or_empty_def config_string_def Let_def)

lemma WriteOnly_supabase:
  "WriteOnly (fst (provider_Get (registry supabase_world) (t_Type supabase_target))) = True"
  by (simp add: provider_Get_def supabase_world_def supabase_target_def supabase_ProviderInfo_def)

lemma Filter_supabase:
  "FilterSecretNames (filepath_Match supabase_world) supabase_names supabase_target = supabase_names"
  by (simp add: supabase_names_def supabase_target_def ShouldSyncSecret_def)

lemma GetAll_supabase:
  "GetAll supabase_source supabase_names = [''KEY'' \<mapsto> ''x'', ''FRESH'' \<mapsto> ''y'']"
  by (simp add: supabase_source_def supabase_names_def mockSource_def lookup_def fun_eq_iff)

lemma List_supabase:
  "p_List (supabase_Provider (memory_Client ''sbp_token_123'' ''abcdefghijklmnop''))
      supabase_store ''default'' =
     (Inr [\<lparr>sv_Name = ''KEY'', sv_Value = [], sv_Environment = ''default''\<rparr>,
           \<lparr>sv_Name = ''UNSET'', sv_Value = [], sv_Environment = ''default''\<rparr>],
      supabase_store)"
  by (simp add: supabase_Provider_def memory_Client_def supabase_store_def)

lemma Preview_supabase:
  "Preview supabase_world supabase_store supabase_names supabase_source supabase_target ''default'' =
     ((Some supabase_diff, None), supabase_store, [CallList ''default''])"
  apply (simp only: Preview_success [OF createProvider_supabase List_supabase] Filter_supabase
      GetAll_supabase WriteOnly_supabase)
  apply (simp add: supabase_names_def List.map_filter_simps Preview_entry_def lookup_def
      supabase_diff_def supabase_diffs_def supabase_target_def GetProject_def config_string_def)
  done

text \<open>A readable store (Add, Change, Unchanged) and a write-only one (Unknown, Add).\<close>

theorem Preview_classification_witness:
  "map sd_Type (Diffs (the (fst (fst
      (Preview mock_world demo_store demo_names demo_source mock_target ''development'')))))
     = [DiffAdd, DiffChange, DiffUnchanged]
   \<and> map sd_Type (Diffs (the (fst (fst
      (Preview supabase_world supabase_store supabase_names supabase_source supabase_target
         ''default'')))))
     = [DiffUnknown, DiffAdd]"
proof -
  from Preview_classification [OF createProvider_mock List_demo, of demo_names demo_source]
  obtain d1 where d1:
    "Preview mock_world demo_store demo_names demo_source mock_target ''development''
       = ((Some d1, None), demo_store, [CallList ''development''])"
    by blast
  have e1: "d1 = demo_diff" using d1 by (simp add: Preview_demo)
  from Preview_classification [OF createProvider_supabase List_supabase,
      of supabase_names supabase_source]
  obtain d2 where d2:
    "Preview supabase_world supabase_store supabase_names supabase_source supabase_target
       ''default'' = ((Some d2, None), supabase_store, [CallList ''default''])"
    by blast
  have e2: "d2 = supabase_diff" using d2 by (simp add: Preview_supabase)
  have t1: "map sd_Type (Diffs demo_diff) = [DiffAdd, DiffChange, DiffUnchanged]"
    by (simp add: demo_diff_def demo_diffs_def)
  have t2: "map sd_Type (Diffs supabase_diff) = [DiffUnknown, DiffAdd]"
    by (simp add: supabase_diff_def supabase_diffs_def)
  show ?thesis by (simp add: d1 d2 e1 e2 t1 t2)
qed

lemma createProvider_unknown:
  "registry w (t_Type target) = None \<Longrightarrow>
   createProvider w target = Inl (UnknownProvider (t_Type target))"
  by (simp add: createProvider_def provider_Get_def provider_Create_def zero_ProviderInfo_def)

lemma createProvider_no_credentials:
  "registry w (t_Type target) = Some info \<Longrightarrow> \<not> SdkAuth info \<Longrightarrow> EnvVar info \<noteq> [] \<Longrightarrow>
   os_Getenv w (EnvVar info) = [] \<Longrightarrow> getTokenFromConfig (Config target) = [] \<Longrightarrow>
   createProvider w target = Inl (AuthenticationFailed (t_Name target) ErrCredentialsNotFound)"
  by (simp add: createProvider_def provider_Get_def ResolveCredentials_def EnvVarFor_def)

lemma createProvider_factory_failed:
  "registry w (t_Type target) = Some info \<Longrightarrow> SdkAuth info \<or> EnvVar info = [] \<Longrightarrow>
   Factory info (Config target) = Inl err \<Longrightarrow> createProvider w target = Inl err"
  by (auto simp: createProvider_def provider_Get_def provider_Create_def)

lemma Preview_error_no_diff:
  "snd (fst (Preview w s names src target env)) \<noteq> None \<Longrightarrow>
   fst (fst (Preview w s names src target env)) = None"
  by (auto simp: Preview_def Let_def split: sum.splits prod.splits)

text \<open>
  Claim C7 (Preview error atomicity). If the provider cannot be constructed, \<open>Preview\<close>
  returns that error and no TargetDiff, without calling the store; if the List call fails,
  it returns the error wrapped with the target's name and no TargetDiff; whenever it returns
  an error it returns no TargetDiff. Construction fails for an unregistered type, for a
  missing credential and when the provider's factory rejects the configuration.
\<close>

theorem Preview_error_atomic:
  "(\<forall>err. createProvider w target = Inl err \<longrightarrow>
       Preview w s secretNames src target remoteEnv = ((None, Some err), s, []))
   \<and> (\<forall>prov err s'. createProvider w target = Inr prov
         \<and> p_List prov s remoteEnv = (Inl err, s') \<longrightarrow>
       Preview w s secretNames src target remoteEnv
         = ((None, Some (FailedToList (t_Name target) err)), s', [CallList remoteEnv]))
   \<and> (snd (fst (Preview w s secretNames src target remoteEnv)) \<noteq> None \<longrightarrow>
       fst (fst (Preview w s secretNames src target remoteEnv)) = None)
   \<and> (registry w (t_Type target) = None \<longrightarrow>
       createProvider w target = Inl (UnknownProvider (t_Type target)))
   \<and> (\<forall>info. registry w (t_Type target) = Some info \<and> \<not> SdkAuth info \<and> EnvVar info \<noteq> []
         \<and> os_Getenv w (EnvVar info) = [] \<and> getTokenFromConfig (Config target) = [] \<longrightarrow>
       createProvider w target
         = Inl (AuthenticationFailed (t_Name target) ErrCredentialsNotFound))
   \<and> (\<forall>info err. registry w (t_Type target) = Some info \<and> (SdkAuth info \<or> EnvVar info = [])
         \<and> Factory info (Config target) = Inl err \<longrightarrow>
       createProvider w target = Inl err)"
  using Preview_create_failed [of w target _ s secretNames src remoteEnv]
        Preview_list_failed [of w target _ s remoteEnv _ _ secretNames src]
        Preview_error_no_diff [of w s secretNames src target remoteEnv]
        createProvider_unknown [of w target]
        createProvider_no_credentials [of w target]
        createProvider_factory_failed [of w target]
  by blast

lemma createProvider_no_token:
  "createProvider no_token_world supabase_target
     = Inl (AuthenticationFailed ''functions'' ErrCredentialsNotFound)"
  by (simp add: createProvider_def provider_Get_def no_token_world_def supabase_world_def
      supabase_target_def supabase_ProviderInfo_def ResolveCredentials_def EnvVarFor_def
      getTokenFromConfig_def config_string_def Let_def)

lemma createProvider_no_ref:
  "createProvider supabase_world no_ref_target
     = Inl (ProviderError ''supabase: project_ref is required'')"
  by (simp add: createProvider_def provider_Get_def provider_Create_def supabase_world_def
      no_ref_target_def supabase_target_def supabase_ProviderInfo_def ResolveCredentials_def
      EnvVarFor_def supabase_New_def config_string_or_empty_def config_string_def Let_def)

lemma createProvider_unreachable:
  "createProvider unreachable_world supabase_target
     = Inr (supabase_Provider (unreachable_Client ''sbp_token_123'' ''abcdefghijklmnop''))"
  by (simp add: createProvider_def provider_Get_def provider_Create_def unreachable_world_def
      supabase_world_def supabase_target_def supabase_ProviderInfo_def ResolveCredentials_def
      EnvVarFor_def supabase_New_def config_string_or_empty_def config_string_def Let_def)

lemma List_unreachable:
  "p_List (supabase_Provider (unreachable_Client ''sbp_token_123'' ''abcdefghijklmnop''))
      supabase_store ''default'' = (Inl (ProviderError ''connection refused''), supabase_store)"
  by (simp add: supabase_Provider_def unreachable_Client_def)

text \<open>No credential, no \<open>project_ref\<close>, and an unreachable project.\<close>

theorem Preview_error_atomic_witness:
  "Preview no_token_world supabase_store supabase_names supabase_source supabase_target ''default''
     = ((None, Some (AuthenticationFailed ''functions'' ErrCredentialsNotFound)),
        supabase_store, [])
   \<and> Preview supabase_world supabase_store supabase_names supabase_source no_ref_target ''default''
     = ((None, Some (ProviderError ''supabase: project_ref is required'')), supabase_store, [])
   \<and> Preview unreachable_world supabase_store supabase_names supabase_source supabase_target
        ''default''
     = ((None, Some (FailedToList ''functions'' (ProviderError ''connection refused''))),
        supabase_store, [CallList ''default''])"
proof -
  have n: "t_Name supabase_target = ''functions''" by (simp add: supabase_target_def)
  from Preview_error_atomic [of no_token_world supabase_target supabase_store supabase_names
      supabase_source "''default''"] createProvider_no_token
  have a: "Preview no_token_world supabase_store supabase_names supabase_source supabase_target
      ''default'' = ((None, Some (AuthenticationFailed ''functions'' ErrCredentialsNotFound)),
        supabase_store, [])"
    by blast
  from Preview_error_atomic [of supabase_world no_ref_target supabase_store supabase_names
      supabase_source "''default''"] createProvider_no_ref
  have b: "Preview supabase_world supabase_store supabase_names supabase_source no_ref_target
      ''default'' = ((None, Some (ProviderError ''supabase: project_ref is required'')),
        supabase_store, [])"
    by blast
  from Preview_error_atomic [of unreachable_world supabase_target supabase_store supabase_names
      supabase_source "''default''"] createProvider_unreachable List_unreachable
  have "Preview unreachable_world supabase_store supabase_names supabase_source supabase_target
        ''default''
     = ((None, Some (FailedToList (t_Name supabase_target) (ProviderError ''connection refused''))),
        supabase_store, [CallList ''default''])"
    by blast
  with n a b show ?thesis by simp
qed


section \<open>\<open>Engine.Sync\<close>\<close>

lemma set_calls_append [simp]: "set_calls (a @ b) = set_calls a @ set_calls b"
  by (induction a rule: set_calls.induct) auto

lemma delete_calls_append [simp]: "delete_calls (a @ b) = delete_calls a @ delete_calls b"
  by (induction a rule: delete_calls.induct) auto

lemma failed_sets_append [simp]: "failed_sets (a @ b) = failed_sets a @ failed_sets b"
  by (induction a rule: failed_sets.induct) auto

lemma set_calls_progress [simp]: "set_calls (progress opts ev tr) = set_calls tr"
  by (simp add: progress_def)

lemma delete_calls_progress [simp]: "delete_calls (progress opts ev tr) = delete_calls tr"
  by (simp add: progress_def)

lemma Sync_entry_set_calls:
  "set_calls (snd (snd (Sync_entry W T E opts d (r, s, tr)))) =
     set_calls tr @ writes_of W E [d] s"
  by (auto simp: Sync_entry_def writes_def Let_def split: prod.splits option.splits)

lemma Sync_entry_delete_calls:
  "delete_calls (snd (snd (Sync_entry W T E opts d (r, s, tr)))) = delete_calls tr"
  by (auto simp: Sync_entry_def Let_def split: prod.splits option.splits)

lemma Sync_entry_state:
  "fst (snd (Sync_entry W T E opts d (r, s, tr))) =
     (if writes d then snd (p_Set W s (sd_Name d) (NewValue d) E) else s)"
  by (auto simp: Sync_entry_def writes_def Let_def split: prod.splits option.splits)

lemma Sync_entry_result:
  "fst (Sync_entry W T E opts d (r, s, tr)) =
     (if sd_Type d = DiffUnchanged then r\<lparr>Unchanged := Unchanged r + 1\<rparr>
      else if writes d then
        (case fst (p_Set W s (sd_Name d) (NewValue d) E) of
           Some err \<Rightarrow> r\<lparr>Failed := Failed r + 1,
                          Errors := Errors r @ [SecretError (sd_Name d) err]\<rparr>
         | None \<Rightarrow>
             (if sd_Type d = DiffAdd then r\<lparr>Added := Added r + 1\<rparr>
              else if sd_Type d = DiffUnknown then r\<lparr>Unknown := Unknown r + 1\<rparr>
              else r\<lparr>Changed := Changed r + 1\<rparr>))
      else r\<lparr>Changed := Changed r + 1\<rparr>)"
  by (cases "sd_Type d")
     (auto simp: Sync_entry_def writes_def Let_def split: prod.splits option.splits)

text \<open>One step of the loop, as a triple of its three components.\<close>

lemma Sync_range_Cons:
  "Sync_range W T E opts (d # ds) (r, s, tr) =
     Sync_range W T E opts ds
       (fst (Sync_entry W T E opts d (r, s, tr)),
        if writes d then snd (p_Set W s (sd_Name d) (NewValue d) E) else s,
        snd (snd (Sync_entry W T E opts d (r, s, tr))))"
  using Sync_entry_state [of W T E opts d r s tr]
  by (cases "Sync_entry W T E opts d (r, s, tr)") simp

lemma Sync_range_set_calls:
  "set_calls (snd (snd (Sync_range W T E opts ds (r, s, tr)))) =
     set_calls tr @ writes_of W E ds s"
proof (induction ds arbitrary: r s tr)
  case Nil
  show ?case by simp
next
  case (Cons d ds)
  show ?case
    by (simp only: Sync_range_Cons Cons.IH Sync_entry_set_calls) simp
qed

lemma Sync_range_delete_calls:
  "delete_calls (snd (snd (Sync_range W T E opts ds (r, s, tr)))) = delete_calls tr"
proof (induction ds arbitrary: r s tr)
  case Nil
  show ?case by simp
next
  case (Cons d ds)
  show ?case
    by (simp only: Sync_range_Cons Cons.IH Sync_entry_delete_calls)
qed

lemma Sync_range_state:
  "store_after W s (writes_of W E ds s) = Some (fst (snd (Sync_range W T E opts ds (r, s, tr))))"
proof (induction ds arbitrary: r s tr)
  case Nil
  show ?case by simp
next
  case (Cons d ds)
  show ?case
    by (simp only: Sync_range_Cons Cons.IH [symmetric]) (simp split: prod.splits)
qed

lemma writes_of_calls:
  "map (\<lambda>c. (fst c, fst (snd c), fst (snd (snd c)))) (writes_of W E ds s) =
     map (\<lambda>d. (sd_Name d, NewValue d, E)) (filter writes ds)"
  by (induction ds arbitrary: s) auto

lemma length_writes_of: "length (writes_of W E ds s) = length (filter writes ds)"
  by (induction ds arbitrary: s) auto

lemma Sync_range_Failed:
  "Failed (fst (Sync_range W T E opts ds (r, s, tr))) =
     Failed r + length (failed_sets (writes_of W E ds s))"
proof (induction ds arbitrary: r s tr)
  case Nil
  show ?case by simp
next
  case (Cons d ds)
  show ?case
    by (simp only: Sync_range_Cons Cons.IH Sync_entry_result)
       (auto simp: writes_def split: option.splits)
qed

lemma Sync_range_Errors:
  "Errors (fst (Sync_range W T E opts ds (r, s, tr))) =
     Errors r @ map (\<lambda>f. SecretError (fst f) (snd f)) (failed_sets (writes_of W E ds s))"
proof (induction ds arbitrary: r s tr)
  case Nil
  show ?case by simp
next
  case (Cons d ds)
  show ?case
    by (simp only: Sync_range_Cons Cons.IH Sync_entry_result)
       (auto simp: writes_def split: option.splits)
qed

lemma Sync_range_Unchanged:
  "Unchanged (fst (Sync_range W T E opts ds (r, s, tr))) =
     Unchanged r + length (filter (\<lambda>d. sd_Type d = DiffUnchanged) ds)"
proof (induction ds arbitrary: r s tr)
  case Nil
  show ?case by simp
next
  case (Cons d ds)
  show ?case
    by (simp only: Sync_range_Cons Cons.IH Sync_entry_result)
       (auto simp: writes_def split: option.splits)
qed

lemma Sync_range_names:
  "sr_TargetName (fst (Sync_range W T E opts ds (r, s, tr))) = sr_TargetName r
   \<and> sr_Environment (fst (Sync_range W T E opts ds (r, s, tr))) = sr_Environment r"
proof (induction ds arbitrary: r s tr)
  case Nil
  show ?case by simp
next
  case (Cons d ds)
  show ?case
    by (simp only: Sync_range_Cons Cons.IH Sync_entry_result)
       (auto simp: writes_def split: option.splits)
qed

lemma Sync_range_sum:
  "Added (fst (Sync_range W T E opts ds (r, s, tr)))
   + Changed (fst (Sync_range W T E opts ds (r, s, tr)))
   + Unchanged (fst (Sync_range W T E opts ds (r, s, tr)))
   + Unknown (fst (Sync_range W T E opts ds (r, s, tr)))
   + Failed (fst (Sync_range W T E opts ds (r, s, tr)))
   = Added r + Changed r + Unchanged r + Unknown r + Failed r + length ds"
proof (induction ds arbitrary: r s tr)
  case Nil
  show ?case by simp
next
  case (Cons d ds)
  show ?case
    by (simp only: Sync_range_Cons Cons.IH Sync_entry_result)
       (auto simp: writes_def split: option.splits)
qed

lemma Sync_range_Added:
  "Added (fst (Sync_range W T E opts ds (r, s, tr))) =
     Added r + length (filter (\<lambda>p. sd_Type (fst p) = DiffAdd \<and> call_ok (snd p))
                        (zip (filter writes ds) (writes_of W E ds s)))"
proof (induction ds arbitrary: r s tr)
  case Nil
  show ?case by simp
next
  case (Cons d ds)
  show ?case
    by (simp only: Sync_range_Cons Cons.IH Sync_entry_result)
       (auto simp: writes_def call_ok_def split: option.splits)
qed

lemma Sync_range_Unknown:
  "Unknown (fst (Sync_range W T E opts ds (r, s, tr))) =
     Unknown r + length (filter (\<lambda>p. sd_Type (fst p) = DiffUnknown \<and> call_ok (snd p))
                        (zip (filter writes ds) (writes_of W E ds s)))"
proof (induction ds arbitrary: r s tr)
  case Nil
  show ?case by simp
next
  case (Cons d ds)
  show ?case
    by (simp only: Sync_range_Cons Cons.IH Sync_entry_result)
       (auto simp: writes_def call_ok_def split: option.splits)
qed

lemma Sync_range_Changed:
  "DiffRemove \<notin> sd_Type ` set ds \<Longrightarrow>
   Changed (fst (Sync_range W T E opts ds (r, s, tr))) =
     Changed r + length (filter (\<lambda>p. sd_Type (fst p) = DiffChange \<and> call_ok (snd p))
                        (zip (filter writes ds) (writes_of W E ds s)))"
proof (induction ds arbitrary: r s tr)
  case Nil
  show ?case by simp
next
  case (Cons d ds)
  from Cons.prems have t: "sd_Type d \<noteq> DiffRemove" and p: "DiffRemove \<notin> sd_Type ` set ds"
    by auto
  show ?case using t
    by (simp only: Sync_range_Cons Cons.IH [OF p] Sync_entry_result)
       (cases "sd_Type d"; auto simp: writes_def call_ok_def split: option.splits)
qed

lemma Sync_range_Failed_zip:
  "Failed (fst (Sync_range W T E opts ds (r, s, tr))) =
     Failed r + length (filter (\<lambda>p. \<not> call_ok (snd p))
                        (zip (filter writes ds) (writes_of W E ds s)))"
proof (induction ds arbitrary: r s tr)
  case Nil
  show ?case by simp
next
  case (Cons d ds)
  show ?case
    by (simp only: Sync_range_Cons Cons.IH Sync_entry_result)
       (auto simp: writes_def call_ok_def split: option.splits)
qed

lemma spec_classification_no_Remove:
  "spec_classification wo v r \<noteq> DiffRemove" "DiffRemove \<noteq> spec_classification wo v r"
  by (simp_all add: spec_classification_def)

lemma Preview_no_Remove:
  assumes "Preview w s names src target env = ((Some diff, err), s', tr)"
  shows "DiffRemove \<notin> sd_Type ` set (Diffs diff)"
proof -
  from Preview_Some_cases [OF assms] obtain prov xs where
    p: "createProvider w target = Inr prov" "p_List prov s env = (Inr xs, s')"
    by blast
  from assms Preview_success [OF p, of names src] show ?thesis
    by (auto simp: map_filter_Preview_entry spec_classification_no_Remove)
qed

lemma writes_iff_not_Unchanged:
  "sd_Type d \<noteq> DiffRemove \<Longrightarrow> writes d = (sd_Type d \<noteq> DiffUnchanged)"
  by (cases "sd_Type d") (auto simp: writes_def)

lemma filter_writes_no_Remove:
  "DiffRemove \<notin> sd_Type ` set ds \<Longrightarrow>
   filter writes ds = filter (\<lambda>d. sd_Type d \<noteq> DiffUnchanged) ds"
  by (induction ds) (auto simp: writes_iff_not_Unchanged)

lemma Sync_dry_run:
  "DryRun opts \<Longrightarrow> Preview w s names src target env = ((Some diff, None), s1, tr1) \<Longrightarrow>
   Sync w s names src target env opts =
     ((Some (Sync_tally (Diffs diff)
        \<lparr>sr_TargetName = t_Name target, sr_Environment = env,
         Added = 0, Changed = 0, Unchanged = 0, Unknown = 0, Failed = 0, Errors = []\<rparr>), None),
      s1, tr1)"
  by (simp add: Sync_def)

lemma Sync_Preview_error:
  "Preview w s names src target env = ((d, Some err), s1, tr1) \<Longrightarrow>
   Sync w s names src target env opts = ((None, Some err), s1, tr1)"
  by (cases d) (simp_all add: Sync_def)

lemma Sync_apply:
  assumes "\<not> DryRun opts" and "Preview w s names src target env = ((Some diff, None), s1, tr1)"
  shows "\<exists>writer. createProvider w target = Inr writer \<and>
    Sync w s names src target env opts =
     ((Some (fst (Sync_range writer target env opts (Diffs diff)
        (\<lparr>sr_TargetName = t_Name target, sr_Environment = env,
          Added = 0, Changed = 0, Unchanged = 0, Unknown = 0, Failed = 0, Errors = []\<rparr>,
         s1, tr1))), None),
      snd (Sync_range writer target env opts (Diffs diff)
        (\<lparr>sr_TargetName = t_Name target, sr_Environment = env,
          Added = 0, Changed = 0, Unchanged = 0, Unknown = 0, Failed = 0, Errors = []\<rparr>,
         s1, tr1)))"
proof -
  from Preview_Some_cases [OF assms(2)] obtain writer where
    "createProvider w target = Inr writer" by blast
  with assms show ?thesis
    by (simp add: Sync_def split: prod.splits)
qed

lemma writes_eq:
  "writes = (\<lambda>d. sd_Type d = DiffAdd \<or> sd_Type d = DiffChange \<or> sd_Type d = DiffUnknown)"
  by (rule ext) (simp add: writes_def)

lemma Preview_trace_calls:
  "set_calls (snd (snd (Preview w s names src target env))) = []
   \<and> delete_calls (snd (snd (Preview w s names src target env))) = []"
  by (auto simp: Preview_def Let_def split: sum.splits prod.splits)

lemma Preview_result_cases:
  "(\<exists>diff. fst (Preview w s names src target env) = (Some diff, None))
   \<or> (\<exists>err. fst (Preview w s names src target env) = (None, Some err))"
  by (auto simp: Preview_def Let_def split: sum.splits prod.splits)

text \<open>
  Claim C3 (per-secret write-failure isolation). In a non-dry-run \<open>Sync\<close> whose Preview
  succeeded, \<open>Sync\<close> returns a result and no error whatever the \<open>Set\<close> calls return; one
  \<open>Set\<close> call is made for every entry that is not Unchanged, in order, whether or not
  earlier calls failed; the recorded calls are the calls made on the store; \<open>Failed\<close> is
  the number of \<open>Set\<close> calls that returned an error, and \<open>Errors\<close> lists those errors
  wrapped with the secret's name. In the loop body a failing \<open>Set\<close> adds one to \<open>Failed\<close>
  and appends the wrapped error.
\<close>

theorem Sync_write_failure_isolation:
  assumes "\<not> DryRun opts"
      and "Preview w s secretNames src target remoteEnv = ((Some diff, None), s1, tr1)"
  shows "\<exists>writer result s2 tr.
      createProvider w target = Inr writer
    \<and> Sync w s secretNames src target remoteEnv opts = ((Some result, None), s2, tr)
    \<and> map (\<lambda>c. (fst c, fst (snd c), fst (snd (snd c)))) (set_calls tr)
        = map (\<lambda>d. (sd_Name d, NewValue d, remoteEnv))
            (filter (\<lambda>d. sd_Type d \<noteq> DiffUnchanged) (Diffs diff))
    \<and> store_after writer s1 (set_calls tr) = Some s2
    \<and> Failed result = length (failed_sets (set_calls tr))
    \<and> Errors result = map (\<lambda>f. SecretError (fst f) (snd f)) (failed_sets (set_calls tr))
    \<and> (\<forall>d r s tr err s'. writes d
          \<and> p_Set writer s (sd_Name d) (NewValue d) remoteEnv = (Some err, s') \<longrightarrow>
          fst (Sync_entry writer target remoteEnv opts d (r, s, tr))
            = r\<lparr>Failed := Failed r + 1, Errors := Errors r @ [SecretError (sd_Name d) err]\<rparr>)"
proof -
  let ?r0 = "\<lparr>sr_TargetName = t_Name target, sr_Environment = remoteEnv,
          Added = 0, Changed = 0, Unchanged = 0, Unknown = 0, Failed = 0, Errors = []\<rparr>"
  from Sync_apply [OF assms] obtain writer where
    w: "createProvider w target = Inr writer" and
    sy: "Sync w s secretNames src target remoteEnv opts =
     ((Some (fst (Sync_range writer target remoteEnv opts (Diffs diff) (?r0, s1, tr1))), None),
      snd (Sync_range writer target remoteEnv opts (Diffs diff) (?r0, s1, tr1)))"
    by blast
  let ?X = "Sync_range writer target remoteEnv opts (Diffs diff) (?r0, s1, tr1)"
  have tr1: "set_calls tr1 = []"
    using Preview_trace_calls [of w s secretNames src target remoteEnv] assms(2) by simp
  have calls: "set_calls (snd (snd ?X)) = writes_of writer remoteEnv (Diffs diff) s1"
    by (simp add: Sync_range_set_calls tr1)
  have nr: "DiffRemove \<notin> sd_Type ` set (Diffs diff)"
    by (rule Preview_no_Remove [OF assms(2)])
  have a: "map (\<lambda>c. (fst c, fst (snd c), fst (snd (snd c)))) (set_calls (snd (snd ?X)))
        = map (\<lambda>d. (sd_Name d, NewValue d, remoteEnv))
            (filter (\<lambda>d. sd_Type d \<noteq> DiffUnchanged) (Diffs diff))"
    by (simp only: calls writes_of_calls filter_writes_no_Remove [OF nr])
  have b: "store_after writer s1 (set_calls (snd (snd ?X))) = Some (fst (snd ?X))"
    by (simp only: calls Sync_range_state)
  have c: "Failed (fst ?X) = length (failed_sets (set_calls (snd (snd ?X))))"
    by (simp add: calls Sync_range_Failed)
  have d: "Errors (fst ?X)
      = map (\<lambda>f. SecretError (fst f) (snd f)) (failed_sets (set_calls (snd (snd ?X))))"
    by (simp add: calls Sync_range_Errors)
  have e: "\<forall>d r s tr err s'. writes d
          \<and> p_Set writer s (sd_Name d) (NewValue d) remoteEnv = (Some err, s') \<longrightarrow>
          fst (Sync_entry writer target remoteEnv opts d (r, s, tr))
            = r\<lparr>Failed := Failed r + 1, Errors := Errors r @ [SecretError (sd_Name d) err]\<rparr>"
    by (auto simp: Sync_entry_result writes_def)
  have sy': "Sync w s secretNames src target remoteEnv opts
      = ((Some (fst ?X), None), fst (snd ?X), snd (snd ?X))"
    by (simp add: sy)
  from w sy' a b c d e show ?thesis by blast
qed

lemma Sync_quiet:
  assumes "DryRun opts \<or> snd (fst (Preview w s secretNames src target remoteEnv)) \<noteq> None"
  shows "snd (Sync w s secretNames src target remoteEnv opts)
            = snd (Preview w s secretNames src target remoteEnv)"
proof -
  obtain res s1 tr1 where p: "Preview w s secretNames src target remoteEnv = (res, s1, tr1)"
    by (cases "Preview w s secretNames src target remoteEnv")
  from Preview_result_cases [of w s secretNames src target remoteEnv] p
  consider (ok) diff where "res = (Some diff, None)" | (err) e where "res = (None, Some e)"
    by auto
  then show ?thesis
  proof cases
    case ok
    with p assms have "DryRun opts" by simp
    with p ok show ?thesis by (simp add: Sync_dry_run)
  next
    case err
    with p show ?thesis by (simp add: Sync_Preview_error)
  qed
qed

lemma Sync_applied_calls:
  assumes "\<not> DryRun opts"
      and "Preview w s secretNames src target remoteEnv = ((Some diff, None), s1, tr1)"
  shows "\<exists>writer result s2 tr.
            createProvider w target = Inr writer
          \<and> Sync w s secretNames src target remoteEnv opts = ((Some result, None), s2, tr)
          \<and> delete_calls tr = []
          \<and> set_calls tr = writes_of writer remoteEnv (Diffs diff) s1
          \<and> store_after writer s1 (set_calls tr) = Some s2
          \<and> Unchanged result = length (filter (\<lambda>d. sd_Type d = DiffUnchanged) (Diffs diff))"
proof -
  let ?r0 = "\<lparr>sr_TargetName = t_Name target, sr_Environment = remoteEnv,
          Added = 0, Changed = 0, Unchanged = 0, Unknown = 0, Failed = 0, Errors = []\<rparr>"
  from Preview_trace_calls [of w s secretNames src target remoteEnv] assms(2)
  have tr1: "set_calls tr1 = []" "delete_calls tr1 = []" by simp_all
  from Sync_apply [OF assms] obtain writer where
    w: "createProvider w target = Inr writer" and
    sy: "Sync w s secretNames src target remoteEnv opts =
     ((Some (fst (Sync_range writer target remoteEnv opts (Diffs diff) (?r0, s1, tr1))), None),
      snd (Sync_range writer target remoteEnv opts (Diffs diff) (?r0, s1, tr1)))"
    by blast
  let ?X = "Sync_range writer target remoteEnv opts (Diffs diff) (?r0, s1, tr1)"
  have calls: "set_calls (snd (snd ?X)) = writes_of writer remoteEnv (Diffs diff) s1"
    by (simp add: Sync_range_set_calls tr1)
  have b: "store_after writer s1 (set_calls (snd (snd ?X))) = Some (fst (snd ?X))"
    by (simp only: calls Sync_range_state)
  have c: "Unchanged (fst ?X) = length (filter (\<lambda>d. sd_Type d = DiffUnchanged) (Diffs diff))"
    by (simp add: Sync_range_Unchanged)
  have d: "delete_calls (snd (snd ?X)) = []"
    by (simp add: Sync_range_delete_calls tr1)
  have sy': "Sync w s secretNames src target remoteEnv opts
      = ((Some (fst ?X), None), fst (snd ?X), snd (snd ?X))"
    by (simp add: sy)
  show ?thesis
    apply (rule exI [of _ writer])
    apply (rule exI [of _ "fst ?X"])
    apply (rule exI [of _ "fst (snd ?X)"])
    apply (rule exI [of _ "snd (snd ?X)"])
    apply (intro conjI)
         apply (rule w)
        apply (rule sy')
       apply (rule d)
      apply (rule calls)
     apply (rule b)
    apply (rule c)
    done
qed

text \<open>
  Claim C4 (never delete during apply). For every input the trace of \<open>Sync\<close> holds no
  \<open>Delete\<close> call. When \<open>Sync\<close> applies a diff, its \<open>Set\<close> calls are exactly
  \<open>Set(name, newValue, remoteEnv)\<close> for the entries classified Add, Change or Unknown, in
  order; the store it leaves is the store after Preview's List with those calls made on
  it; Unchanged entries are counted and cause no call. In a dry run, and when Preview
  fails, no \<open>Set\<close> call is made and the store is as Preview left it.
\<close>

theorem Sync_never_deletes:
  "delete_calls (snd (snd (Sync w s secretNames src target remoteEnv opts))) = []
   \<and> (\<forall>diff s1 tr1.
        \<not> DryRun opts
        \<and> Preview w s secretNames src target remoteEnv = ((Some diff, None), s1, tr1) \<longrightarrow>
        (\<exists>writer result s2 tr.
            createProvider w target = Inr writer
          \<and> Sync w s secretNames src target remoteEnv opts = ((Some result, None), s2, tr)
          \<and> map (\<lambda>c. (fst c, fst (snd c), fst (snd (snd c)))) (set_calls tr)
              = map (\<lambda>d. (sd_Name d, NewValue d, remoteEnv))
                  (filter (\<lambda>d. sd_Type d = DiffAdd \<or> sd_Type d = DiffChange
                              \<or> sd_Type d = DiffUnknown) (Diffs diff))
          \<and> store_after writer s1 (set_calls tr) = Some s2
          \<and> Unchanged result = length (filter (\<lambda>d. sd_Type d = DiffUnchanged) (Diffs diff))))
   \<and> (DryRun opts \<or> snd (fst (Preview w s secretNames src target remoteEnv)) \<noteq> None \<longrightarrow>
        set_calls (snd (snd (Sync w s secretNames src target remoteEnv opts))) = []
        \<and> snd (Sync w s secretNames src target remoteEnv opts)
            = snd (Preview w s secretNames src target remoteEnv))"
proof (intro conjI allI impI)
  show "delete_calls (snd (snd (Sync w s secretNames src target remoteEnv opts))) = []"
  proof (cases "DryRun opts \<or> snd (fst (Preview w s secretNames src target remoteEnv)) \<noteq> None")
    case True
    from Sync_quiet [OF True] Preview_trace_calls [of w s secretNames src target remoteEnv]
    show ?thesis by simp
  next
    case False
    with Preview_result_cases [of w s secretNames src target remoteEnv]
    obtain diff where "fst (Preview w s secretNames src target remoteEnv) = (Some diff, None)"
      by auto
    then obtain s1 tr1 where
      p: "Preview w s secretNames src target remoteEnv = ((Some diff, None), s1, tr1)"
      by (cases "Preview w s secretNames src target remoteEnv") auto
    from False have nd: "\<not> DryRun opts" by simp
    from Sync_applied_calls [OF nd p] obtain tr r s2 where
      "Sync w s secretNames src target remoteEnv opts = ((Some r, None), s2, tr)"
      "delete_calls tr = []" by blast
    then show ?thesis by simp
  qed
next
  fix diff s1 tr1
  assume h: "\<not> DryRun opts
        \<and> Preview w s secretNames src target remoteEnv = ((Some diff, None), s1, tr1)"
  then have nd: "\<not> DryRun opts"
    and p: "Preview w s secretNames src target remoteEnv = ((Some diff, None), s1, tr1)"
    by simp_all
  from Sync_applied_calls [OF nd p] obtain writer result s2 tr where f:
    "createProvider w target = Inr writer"
    "Sync w s secretNames src target remoteEnv opts = ((Some result, None), s2, tr)"
    "set_calls tr = writes_of writer remoteEnv (Diffs diff) s1"
    "store_after writer s1 (set_calls tr) = Some s2"
    "Unchanged result = length (filter (\<lambda>d. sd_Type d = DiffUnchanged) (Diffs diff))"
    by blast
  have a: "map (\<lambda>c. (fst c, fst (snd c), fst (snd (snd c)))) (set_calls tr)
        = map (\<lambda>d. (sd_Name d, NewValue d, remoteEnv))
            (filter (\<lambda>d. sd_Type d = DiffAdd \<or> sd_Type d = DiffChange
                        \<or> sd_Type d = DiffUnknown) (Diffs diff))"
    by (simp only: f(3) writes_of_calls writes_eq)
  show "\<exists>writer result s2 tr.
            createProvider w target = Inr writer
          \<and> Sync w s secretNames src target remoteEnv opts = ((Some result, None), s2, tr)
          \<and> map (\<lambda>c. (fst c, fst (snd c), fst (snd (snd c)))) (set_calls tr)
              = map (\<lambda>d. (sd_Name d, NewValue d, remoteEnv))
                  (filter (\<lambda>d. sd_Type d = DiffAdd \<or> sd_Type d = DiffChange
                              \<or> sd_Type d = DiffUnknown) (Diffs diff))
          \<and> store_after writer s1 (set_calls tr) = Some s2
          \<and> Unchanged result = length (filter (\<lambda>d. sd_Type d = DiffUnchanged) (Diffs diff))"
    apply (rule exI [of _ writer])
    apply (rule exI [of _ result])
    apply (rule exI [of _ s2])
    apply (rule exI [of _ tr])
    apply (intro conjI)
        apply (rule f(1))
       apply (rule f(2))
      apply (rule a)
     apply (rule f(4))
    apply (rule f(5))
    done
next
  assume q: "DryRun opts \<or> snd (fst (Preview w s secretNames src target remoteEnv)) \<noteq> None"
  from Sync_quiet [OF q] Preview_trace_calls [of w s secretNames src target remoteEnv]
  show "set_calls (snd (snd (Sync w s secretNames src target remoteEnv opts))) = []"
    by simp
next
  assume q: "DryRun opts \<or> snd (fst (Preview w s secretNames src target remoteEnv)) \<noteq> None"
  from Sync_quiet [OF q]
  show "snd (Sync w s secretNames src target remoteEnv opts)
            = snd (Preview w s secretNames src target remoteEnv)" .
qed

lemma t_Name_mock_target: "t_Name mock_target = ''test-target''"
  by (simp add: mock_target_def)

lemma Sync_apply_eq:
  "\<not> DryRun opts \<Longrightarrow> Preview w s names src target env = ((Some diff, None), s1, tr1) \<Longrightarrow>
   createProvider w target = Inr writer \<Longrightarrow>
   Sync_range writer target env opts (Diffs diff)
     (\<lparr>sr_TargetName = t_Name target, sr_Environment = env,
       Added = 0, Changed = 0, Unchanged = 0, Unknown = 0, Failed = 0, Errors = []\<rparr>, s1, tr1)
     = (result, s2, tr2) \<Longrightarrow>
   Sync w s names src target env opts = ((Some result, None), s2, tr2)"
  by (simp add: Sync_def)

lemma not_dry_demo_opts: "\<not> DryRun demo_opts"
  by (simp add: demo_opts_def)

lemma Sync_range_demo:
  "Sync_range (mockProvider None None) mock_target ''development'' demo_opts (Diffs demo_diff)
     (\<lparr>sr_TargetName = t_Name mock_target, sr_Environment = ''development'',
       Added = 0, Changed = 0, Unchanged = 0, Unknown = 0, Failed = 0, Errors = []\<rparr>,
      demo_store, [CallList ''development''])
   = (demo_result, demo_store_synced,
      [CallList ''development'',
       CallSet ''API_KEY'' ''v1'' ''development'' None,
       CallSet ''DB_URL'' ''new'' ''development'' None])"
  by (simp add: demo_diff_def demo_diffs_def Sync_entry_def progress_def demo_opts_def
      mockProvider_def mockProvider_Set_def map_assign_def demo_store_def
      demo_store_synced_def demo_result_def t_Name_mock_target)

lemma Sync_demo:
  "Sync mock_world demo_store demo_names demo_source mock_target ''development'' demo_opts =
     ((Some demo_result, None), demo_store_synced,
      [CallList ''development'',
       CallSet ''API_KEY'' ''v1'' ''development'' None,
       CallSet ''DB_URL'' ''new'' ''development'' None])"
  by (rule Sync_apply_eq [OF not_dry_demo_opts Preview_demo createProvider_mock Sync_range_demo])

lemma createProvider_failing:
  "createProvider failing_world mock_target
     = Inr (mockProvider (Some (ProviderError ''set failed'')) None)"
  by (simp add: createProvider_def provider_Get_def provider_Create_def failing_world_def
      mock_world_def mock_target_def mock_ProviderInfo_def)

lemma List_failing:
  "p_List (mockProvider (Some (ProviderError ''set failed'')) None) demo_store ''development''
     = p_List (mockProvider None None) demo_store ''development''"
  by (simp add: mockProvider_def)

lemma Preview_failing:
  "Preview failing_world demo_store demo_names demo_source mock_target ''development'' =
     ((Some demo_diff, None), demo_store, [CallList ''development''])"
proof -
  have l: "p_List (mockProvider (Some (ProviderError ''set failed'')) None) demo_store
      ''development'' = (Inr (mockProvider_List demo_store ''development''), demo_store)"
    by (simp add: mockProvider_def)
  have l': "p_List (mockProvider None None) demo_store
      ''development'' = (Inr (mockProvider_List demo_store ''development''), demo_store)"
    by (simp add: mockProvider_def)
  have r: "registry failing_world (t_Type mock_target) \<noteq> None"
    "filepath_Match failing_world = filepath_Match mock_world"
    "WriteOnly (fst (provider_Get (registry failing_world) (t_Type mock_target)))
      = WriteOnly (fst (provider_Get (registry mock_world) (t_Type mock_target)))"
    by (simp_all add: failing_world_def mock_world_def mock_target_def provider_Get_def
        mock_ProviderInfo_def)
  have "Preview failing_world demo_store demo_names demo_source mock_target ''development''
     = Preview mock_world demo_store demo_names demo_source mock_target ''development''"
    by (simp only: Preview_success [OF createProvider_failing l]
        Preview_success [OF createProvider_mock l'] r)
  then show ?thesis by (simp only: Preview_demo)
qed

lemma Sync_range_failing:
  "Sync_range (mockProvider (Some (ProviderError ''set failed'')) None) mock_target
     ''development'' demo_opts (Diffs demo_diff)
     (\<lparr>sr_TargetName = t_Name mock_target, sr_Environment = ''development'',
       Added = 0, Changed = 0, Unchanged = 0, Unknown = 0, Failed = 0, Errors = []\<rparr>,
      demo_store, [CallList ''development''])
   = (failed_result, demo_store,
      [CallList ''development'',
       CallSet ''API_KEY'' ''v1'' ''development'' (Some (ProviderError ''set failed'')),
       CallSet ''DB_URL'' ''new'' ''development'' (Some (ProviderError ''set failed''))])"
  by (simp add: demo_diff_def demo_diffs_def Sync_entry_def progress_def demo_opts_def
      mockProvider_def mockProvider_Set_def failed_result_def t_Name_mock_target)

lemma Sync_failing:
  "Sync failing_world demo_store demo_names demo_source mock_target ''development'' demo_opts =
     ((Some failed_result, None), demo_store,
      [CallList ''development'',
       CallSet ''API_KEY'' ''v1'' ''development'' (Some (ProviderError ''set failed'')),
       CallSet ''DB_URL'' ''new'' ''development'' (Some (ProviderError ''set failed''))])"
  by (rule Sync_apply_eq [OF not_dry_demo_opts Preview_failing createProvider_failing
        Sync_range_failing])

lemma Sync_dry_demo:
  "Sync mock_world demo_store demo_names demo_source mock_target ''development'' dry_opts =
     ((Some dry_result, None), demo_store, [CallList ''development''])"
proof -
  have d: "DryRun dry_opts" by (simp add: dry_opts_def)
  show ?thesis
    by (simp only: Sync_dry_run [OF d Preview_demo])
       (simp add: demo_diff_def demo_diffs_def dry_result_def t_Name_mock_target)
qed

text \<open>A provider whose every \<open>Set\<close> fails: both writes are attempted and counted.\<close>

theorem Sync_write_failure_isolation_witness:
  "\<not> DryRun demo_opts
   \<and> Preview failing_world demo_store demo_names demo_source mock_target ''development''
       = ((Some demo_diff, None), demo_store, [CallList ''development''])
   \<and> fst (Sync failing_world demo_store demo_names demo_source mock_target ''development''
         demo_opts) = (Some failed_result, None)
   \<and> set_calls (snd (snd (Sync failing_world demo_store demo_names demo_source mock_target
         ''development'' demo_opts)))
       = [(''API_KEY'', ''v1'', ''development'', Some (ProviderError ''set failed'')),
          (''DB_URL'', ''new'', ''development'', Some (ProviderError ''set failed''))]
   \<and> Failed failed_result = 2
   \<and> Errors failed_result = [SecretError ''API_KEY'' (ProviderError ''set failed''),
                              SecretError ''DB_URL'' (ProviderError ''set failed'')]"
proof -
  from Sync_write_failure_isolation [OF not_dry_demo_opts Preview_failing]
  obtain result s2 tr where
    s: "Sync failing_world demo_store demo_names demo_source mock_target ''development''
          demo_opts = ((Some result, None), s2, tr)"
    and f: "Failed result = length (failed_sets (set_calls tr))"
    and e: "Errors result = map (\<lambda>f. SecretError (fst f) (snd f)) (failed_sets (set_calls tr))"
    by blast
  from s have r: "result = failed_result" and t: "tr = [CallList ''development'',
       CallSet ''API_KEY'' ''v1'' ''development'' (Some (ProviderError ''set failed'')),
       CallSet ''DB_URL'' ''new'' ''development'' (Some (ProviderError ''set failed''))]"
    by (simp_all add: Sync_failing)
  from f r t have f': "Failed failed_result = 2" by simp
  from e r t have e': "Errors failed_result = [SecretError ''API_KEY'' (ProviderError ''set failed''),
                              SecretError ''DB_URL'' (ProviderError ''set failed'')]" by simp
  show ?thesis
    by (simp add: not_dry_demo_opts Preview_failing Sync_failing f' e')
qed

text \<open>Two writes, no delete; \<open>OLD_KEY\<close>, which has no local value, stays in the store.\<close>

theorem Sync_never_deletes_witness:
  "delete_calls (snd (snd (Sync mock_world demo_store demo_names demo_source mock_target
       ''development'' demo_opts))) = []
   \<and> set_calls (snd (snd (Sync mock_world demo_store demo_names demo_source mock_target
       ''development'' demo_opts)))
       = [(''API_KEY'', ''v1'', ''development'', None), (''DB_URL'', ''new'', ''development'', None)]
   \<and> fst (snd (Sync mock_world demo_store demo_names demo_source mock_target
       ''development'' demo_opts)) = demo_store_synced
   \<and> map_of (the (demo_store_synced ''development'')) ''OLD_KEY'' = Some ''old''
   \<and> set_calls (snd (snd (Sync mock_world demo_store demo_names demo_source mock_target
       ''development'' dry_opts))) = []"
proof -
  note t = Sync_never_deletes [of mock_world demo_store demo_names demo_source mock_target
      "''development''" demo_opts]
  note d = Sync_never_deletes [of mock_world demo_store demo_names demo_source mock_target
      "''development''" dry_opts]
  from t have a: "delete_calls (snd (snd (Sync mock_world demo_store demo_names demo_source
      mock_target ''development'' demo_opts))) = []" by blast
  have dr: "DryRun dry_opts" by (simp add: dry_opts_def)
  from d dr have b: "set_calls (snd (snd (Sync mock_world demo_store demo_names demo_source
      mock_target ''development'' dry_opts))) = []" by blast
  have c: "map_of (the (demo_store_synced ''development'')) ''OLD_KEY'' = Some ''old''"
    by (simp add: demo_store_synced_def)
  from a b c show ?thesis by (simp add: Sync_demo)
qed

lemma Sync_tally_counts:
  "Added (Sync_tally ds r) = Added r + length (filter (\<lambda>d. sd_Type d = DiffAdd) ds)
   \<and> Changed (Sync_tally ds r) = Changed r + length (filter (\<lambda>d. sd_Type d = DiffChange) ds)
   \<and> Unchanged (Sync_tally ds r)
       = Unchanged r + length (filter (\<lambda>d. sd_Type d = DiffUnchanged) ds)
   \<and> Unknown (Sync_tally ds r) = Unknown r + length (filter (\<lambda>d. sd_Type d = DiffUnknown) ds)
   \<and> Failed (Sync_tally ds r) = Failed r
   \<and> Errors (Sync_tally ds r) = Errors r"
proof (induction ds arbitrary: r)
  case Nil
  show ?case by simp
next
  case (Cons d ds)
  show ?case by (cases "sd_Type d") (simp_all add: Cons.IH)
qed

text \<open>
  Claim C5 (dry run). With \<open>DryRun\<close> set, \<open>Sync\<close> leaves the store and the trace as
  Preview left them, so it makes no \<open>Set\<close> and no \<open>Delete\<close> call; when Preview returns a
  diff, the counters Added, Changed, Unknown and Unchanged are the numbers of entries of
  that classification, \<open>Failed\<close> is zero and there are no errors; when Preview fails, \<open>Sync\<close>
  returns that error.
\<close>

theorem Sync_dry_run_counts:
  assumes "DryRun opts"
  shows "snd (Sync w s secretNames src target remoteEnv opts)
           = snd (Preview w s secretNames src target remoteEnv)
    \<and> set_calls (snd (snd (Sync w s secretNames src target remoteEnv opts))) = []
    \<and> delete_calls (snd (snd (Sync w s secretNames src target remoteEnv opts))) = []
    \<and> (\<forall>diff. fst (Preview w s secretNames src target remoteEnv) = (Some diff, None) \<longrightarrow>
         (\<exists>result. fst (Sync w s secretNames src target remoteEnv opts) = (Some result, None)
            \<and> Added result = length (filter (\<lambda>d. sd_Type d = DiffAdd) (Diffs diff))
            \<and> Changed result = length (filter (\<lambda>d. sd_Type d = DiffChange) (Diffs diff))
            \<and> Unknown result = length (filter (\<lambda>d. sd_Type d = DiffUnknown) (Diffs diff))
            \<and> Unchanged result = length (filter (\<lambda>d. sd_Type d = DiffUnchanged) (Diffs diff))
            \<and> Failed result = 0
            \<and> Errors result = []))
    \<and> (\<forall>err. snd (fst (Preview w s secretNames src target remoteEnv)) = Some err \<longrightarrow>
         fst (Sync w s secretNames src target remoteEnv opts) = (None, Some err))"
proof (intro conjI allI impI)
  from assms have q: "DryRun opts \<or> snd (fst (Preview w s secretNames src target remoteEnv)) \<noteq> None"
    by simp
  show eq: "snd (Sync w s secretNames src target remoteEnv opts)
           = snd (Preview w s secretNames src target remoteEnv)"
    by (rule Sync_quiet [OF q])
  from eq Preview_trace_calls [of w s secretNames src target remoteEnv]
  show "set_calls (snd (snd (Sync w s secretNames src target remoteEnv opts))) = []"
    by simp
  from eq Preview_trace_calls [of w s secretNames src target remoteEnv]
  show "delete_calls (snd (snd (Sync w s secretNames src target remoteEnv opts))) = []"
    by simp
next
  fix diff
  assume "fst (Preview w s secretNames src target remoteEnv) = (Some diff, None)"
  then obtain s1 tr1 where
    p: "Preview w s secretNames src target remoteEnv = ((Some diff, None), s1, tr1)"
    by (cases "Preview w s secretNames src target remoteEnv") auto
  let ?r0 = "\<lparr>sr_TargetName = t_Name target, sr_Environment = remoteEnv,
          Added = 0, Changed = 0, Unchanged = 0, Unknown = 0, Failed = 0, Errors = []\<rparr>"
  have sy: "fst (Sync w s secretNames src target remoteEnv opts)
      = (Some (Sync_tally (Diffs diff) ?r0), None)"
    by (simp add: Sync_dry_run [OF assms p])
  show "\<exists>result. fst (Sync w s secretNames src target remoteEnv opts) = (Some result, None)
            \<and> Added result = length (filter (\<lambda>d. sd_Type d = DiffAdd) (Diffs diff))
            \<and> Changed result = length (filter (\<lambda>d. sd_Type d = DiffChange) (Diffs diff))
            \<and> Unknown result = length (filter (\<lambda>d. sd_Type d = DiffUnknown) (Diffs diff))
            \<and> Unchanged result = length (filter (\<lambda>d. sd_Type d = DiffUnchanged) (Diffs diff))
            \<and> Failed result = 0
            \<and> Errors result = []"
    apply (rule exI [of _ "Sync_tally (Diffs diff) ?r0"])
    apply (simp add: sy Sync_tally_counts)
    done
next
  fix err
  assume "snd (fst (Preview w s secretNames src target remoteEnv)) = Some err"
  then obtain d s1 tr1 where
    p: "Preview w s secretNames src target remoteEnv = ((d, Some err), s1, tr1)"
    by (cases "Preview w s secretNames src target remoteEnv") auto
  show "fst (Sync w s secretNames src target remoteEnv opts) = (None, Some err)"
    by (simp add: Sync_Preview_error [OF p])
qed

text \<open>A dry run over one Add, one Change and one Unchanged entry.\<close>

theorem Sync_dry_run_counts_witness:
  "DryRun dry_opts
   \<and> Sync mock_world demo_store demo_names demo_source mock_target ''development'' dry_opts
       = ((Some dry_result, None), demo_store, [CallList ''development''])
   \<and> map sd_Type (Diffs demo_diff) = [DiffAdd, DiffChange, DiffUnchanged]
   \<and> Added dry_result = 1 \<and> Changed dry_result = 1 \<and> Unknown dry_result = 0
   \<and> Unchanged dry_result = 1 \<and> Failed dry_result = 0"
proof -
  have dr: "DryRun dry_opts" by (simp add: dry_opts_def)
  have p: "fst (Preview mock_world demo_store demo_names demo_source mock_target ''development'')
      = (Some demo_diff, None)"
    by (simp add: Preview_demo)
  from Sync_dry_run_counts [OF dr, of mock_world demo_store demo_names demo_source mock_target
      "''development''"] p
  obtain result where
    "fst (Sync mock_world demo_store demo_names demo_source mock_target ''development'' dry_opts)
       = (Some result, None)"
    "Added result = length (filter (\<lambda>d. sd_Type d = DiffAdd) (Diffs demo_diff))"
    "Changed result = length (filter (\<lambda>d. sd_Type d = DiffChange) (Diffs demo_diff))"
    "Unknown result = length (filter (\<lambda>d. sd_Type d = DiffUnknown) (Diffs demo_diff))"
    "Unchanged result = length (filter (\<lambda>d. sd_Type d = DiffUnchanged) (Diffs demo_diff))"
    "Failed result = 0"
    by blast
  then have "Added dry_result = 1 \<and> Changed dry_result = 1 \<and> Unknown dry_result = 0
   \<and> Unchanged dry_result = 1 \<and> Failed dry_result = 0"
    by (simp add: Sync_dry_demo demo_diff_def demo_diffs_def)
  moreover have "map sd_Type (Diffs demo_diff) = [DiffAdd, DiffChange, DiffUnchanged]"
    by (simp add: demo_diff_def demo_diffs_def)
  ultimately show ?thesis
    by (simp add: dr Sync_dry_demo)
qed

text \<open>
  Claim C10 (counter partition). In a non-dry-run \<open>Sync\<close> over the diff of Preview the five
  counters add up to the number of DiffEntries. \<open>Unchanged\<close> counts the Unchanged entries;
  the other entries correspond one to one, in order, to the \<open>Set\<close> calls of the trace:
  \<open>Failed\<close> counts those whose call returned an error, and \<open>Added\<close>, \<open>Changed\<close> and
  \<open>Unknown\<close> count the Add, Change and Unknown entries whose call succeeded.
\<close>

theorem Sync_counter_partition:
  assumes "\<not> DryRun opts"
      and "Preview w s secretNames src target remoteEnv = ((Some diff, None), s1, tr1)"
  shows "\<exists>result s2 tr.
      Sync w s secretNames src target remoteEnv opts = ((Some result, None), s2, tr)
    \<and> Added result + Changed result + Unchanged result + Unknown result + Failed result
        = length (Diffs diff)
    \<and> Unchanged result = length (filter (\<lambda>d. sd_Type d = DiffUnchanged) (Diffs diff))
    \<and> length (set_calls tr) = length (filter (\<lambda>d. sd_Type d \<noteq> DiffUnchanged) (Diffs diff))
    \<and> Failed result
        = length (filter (\<lambda>p. \<not> call_ok (snd p))
            (zip (filter (\<lambda>d. sd_Type d \<noteq> DiffUnchanged) (Diffs diff)) (set_calls tr)))
    \<and> Added result
        = length (filter (\<lambda>p. sd_Type (fst p) = DiffAdd \<and> call_ok (snd p))
            (zip (filter (\<lambda>d. sd_Type d \<noteq> DiffUnchanged) (Diffs diff)) (set_calls tr)))
    \<and> Changed result
        = length (filter (\<lambda>p. sd_Type (fst p) = DiffChange \<and> call_ok (snd p))
            (zip (filter (\<lambda>d. sd_Type d \<noteq> DiffUnchanged) (Diffs diff)) (set_calls tr)))
    \<and> Unknown result
        = length (filter (\<lambda>p. sd_Type (fst p) = DiffUnknown \<and> call_ok (snd p))
            (zip (filter (\<lambda>d. sd_Type d \<noteq> DiffUnchanged) (Diffs diff)) (set_calls tr)))"
proof -
  let ?r0 = "\<lparr>sr_TargetName = t_Name target, sr_Environment = remoteEnv,
          Added = 0, Changed = 0, Unchanged = 0, Unknown = 0, Failed = 0, Errors = []\<rparr>"
  let ?ws = "filter (\<lambda>d. sd_Type d \<noteq> DiffUnchanged) (Diffs diff)"
  from Preview_trace_calls [of w s secretNames src target remoteEnv] assms(2)
  have tr1: "set_calls tr1 = []" by simp
  have nr: "DiffRemove \<notin> sd_Type ` set (Diffs diff)"
    by (rule Preview_no_Remove [OF assms(2)])
  note ws = filter_writes_no_Remove [OF nr]
  from Sync_apply [OF assms] obtain writer where
    sy: "Sync w s secretNames src target remoteEnv opts =
     ((Some (fst (Sync_range writer target remoteEnv opts (Diffs diff) (?r0, s1, tr1))), None),
      snd (Sync_range writer target remoteEnv opts (Diffs diff) (?r0, s1, tr1)))"
    by blast
  let ?X = "Sync_range writer target remoteEnv opts (Diffs diff) (?r0, s1, tr1)"
  have calls: "set_calls (snd (snd ?X)) = writes_of writer remoteEnv (Diffs diff) s1"
    by (simp add: Sync_range_set_calls tr1)
  have sy': "Sync w s secretNames src target remoteEnv opts
      = ((Some (fst ?X), None), fst (snd ?X), snd (snd ?X))"
    by (simp add: sy)
  have sum: "Added (fst ?X) + Changed (fst ?X) + Unchanged (fst ?X) + Unknown (fst ?X)
      + Failed (fst ?X) = length (Diffs diff)"
    using Sync_range_sum [of writer target remoteEnv opts "Diffs diff" ?r0 s1 tr1] by simp
  have un: "Unchanged (fst ?X) = length (filter (\<lambda>d. sd_Type d = DiffUnchanged) (Diffs diff))"
    by (simp add: Sync_range_Unchanged)
  have len: "length (set_calls (snd (snd ?X))) = length ?ws"
    by (simp only: calls length_writes_of ws)
  have fa: "Failed (fst ?X)
      = length (filter (\<lambda>p. \<not> call_ok (snd p)) (zip ?ws (set_calls (snd (snd ?X)))))"
    by (simp only: calls Sync_range_Failed_zip ws [symmetric]) simp
  have ad: "Added (fst ?X)
      = length (filter (\<lambda>p. sd_Type (fst p) = DiffAdd \<and> call_ok (snd p))
          (zip ?ws (set_calls (snd (snd ?X)))))"
    by (simp only: calls Sync_range_Added ws [symmetric]) simp
  have ch: "Changed (fst ?X)
      = length (filter (\<lambda>p. sd_Type (fst p) = DiffChange \<and> call_ok (snd p))
          (zip ?ws (set_calls (snd (snd ?X)))))"
    by (simp only: calls Sync_range_Changed [OF nr] ws [symmetric]) simp
  have uk: "Unknown (fst ?X)
      = length (filter (\<lambda>p. sd_Type (fst p) = DiffUnknown \<and> call_ok (snd p))
          (zip ?ws (set_calls (snd (snd ?X)))))"
    by (simp only: calls Sync_range_Unknown ws [symmetric]) simp
  show ?thesis
    apply (rule exI [of _ "fst ?X"])
    apply (rule exI [of _ "fst (snd ?X)"])
    apply (rule exI [of _ "snd (snd ?X)"])
    apply (intro conjI)
           apply (rule sy')
          apply (rule sum)
         apply (rule un)
        apply (rule len)
       apply (rule fa)
      apply (rule ad)
     apply (rule ch)
    apply (rule uk)
    done
qed

text \<open>Three entries, with every write succeeding and with every write failing.\<close>

theorem Sync_counter_partition_witness:
  "fst (Sync mock_world demo_store demo_names demo_source mock_target ''development'' demo_opts)
     = (Some demo_result, None)
   \<and> length (Diffs demo_diff) = 3
   \<and> Added demo_result + Changed demo_result + Unchanged demo_result + Unknown demo_result
       + Failed demo_result = 3
   \<and> fst (Sync failing_world demo_store demo_names demo_source mock_target ''development''
       demo_opts) = (Some failed_result, None)
   \<and> Added failed_result + Changed failed_result + Unchanged failed_result
       + Unknown failed_result + Failed failed_result = 3"
proof -
  have l: "length (Diffs demo_diff) = 3" by (simp add: demo_diff_def demo_diffs_def)
  from Sync_counter_partition [OF not_dry_demo_opts Preview_demo]
  obtain r1 s2 tr where
    "Sync mock_world demo_store demo_names demo_source mock_target ''development'' demo_opts
       = ((Some r1, None), s2, tr)"
    "Added r1 + Changed r1 + Unchanged r1 + Unknown r1 + Failed r1 = length (Diffs demo_diff)"
    by blast
  then have a: "Added demo_result + Changed demo_result + Unchanged demo_result
      + Unknown demo_result + Failed demo_result = 3"
    by (simp add: Sync_demo l)
  from Sync_counter_partition [OF not_dry_demo_opts Preview_failing]
  obtain r2 s3 tr' where
    "Sync failing_world demo_store demo_names demo_source mock_target ''development'' demo_opts
       = ((Some r2, None), s3, tr')"
    "Added r2 + Changed r2 + Unchanged r2 + Unknown r2 + Failed r2 = length (Diffs demo_diff)"
    by blast
  then have b: "Added failed_result + Changed failed_result + Unchanged failed_result
       + Unknown failed_result + Failed failed_result = 3"
    by (simp add: Sync_failing l)
  from a b l show ?thesis by (simp add: Sync_demo Sync_failing)
qed


end
